theory Spec2Isabelle
  imports Complex_Main "HOL-Library.Log_Nat" "HOL-Library.Word"
begin

section \<open>JavaScript numbers\<close>

text \<open>
  The vote handler computes its two percentages in JavaScript numbers, that is IEEE 754
  doubles: \<^verbatim>\<open>(updatedProposal.totalVotes / totalMembers) * 100\<close>. The operands are
  database integers (32 bits), which doubles hold exactly; the quotient and the product are
  each rounded to the nearest double, ties to even. A finite double is kept as a mantissa
  and a binary exponent, \<open>Fin m e\<close> standing for \<open>m * 2 ^ e\<close>. With 32-bit operands every
  result lies far inside the normal range of doubles, so the exponent is left unbounded.
\<close>

datatype jsnum = Fin int int | PosInf | NegInf | NaN

text \<open>\<open>floor_log2 n d\<close> is the integer part of the binary logarithm of \<open>n / d\<close>, for positive
  \<open>n\<close> and \<open>d\<close>.\<close>

definition floor_log2 :: "int \<Rightarrow> int \<Rightarrow> int" where
  "floor_log2 n d =
     (let k = bitlen n - bitlen d
      in if (if 0 \<le> k then d * 2 ^ nat k \<le> n else d \<le> n * 2 ^ nat (- k)) then k else k - 1)"

text \<open>\<open>round_pos n d\<close> rounds the positive fraction \<open>n / d\<close> to 53 significant bits, to
  nearest, ties to even, and returns the mantissa with its exponent.\<close>

definition round_pos :: "int \<Rightarrow> int \<Rightarrow> int \<times> int" where
  "round_pos n d =
     (let e = floor_log2 n d - 52;
          N = (if 0 \<le> e then n else n * 2 ^ nat (- e));
          D = (if 0 \<le> e then d * 2 ^ nat e else d);
          q = N div D;
          r = N mod D;
          m = (if 2 * r < D then q else if D < 2 * r then q + 1
               else if even q then q else q + 1)
      in (m, e))"

definition round_frac :: "int \<Rightarrow> int \<Rightarrow> jsnum" where
  "round_frac n d =
     (if n = 0 then Fin 0 0
      else let (m, e) = round_pos \<bar>n\<bar> \<bar>d\<bar>
           in Fin (if (n < 0) = (d < 0) then m else - m) e)"

text \<open>\<open>a / b\<close> on two integers held as doubles. Division by zero does not raise in
  JavaScript: it gives an infinity, or NaN for \<open>0 / 0\<close>.\<close>

definition js_div :: "int \<Rightarrow> int \<Rightarrow> jsnum" where
  "js_div a b =
     (if b = 0 then (if a = 0 then NaN else if 0 < a then PosInf else NegInf)
      else round_frac a b)"

text \<open>\<open>x * c\<close> for a double \<open>x\<close> and a positive integer constant \<open>c\<close>.\<close>

definition js_mul :: "jsnum \<Rightarrow> int \<Rightarrow> jsnum" where
  "js_mul x c =
     (case x of
        Fin m e \<Rightarrow> (if 0 \<le> e then round_frac (m * c * 2 ^ nat e) 1
                    else round_frac (m * c) (2 ^ nat (- e)))
      | PosInf \<Rightarrow> PosInf
      | NegInf \<Rightarrow> NegInf
      | NaN \<Rightarrow> NaN)"

text \<open>\<open>x >= q\<close> for a double \<open>x\<close> and an integer \<open>q\<close>; every comparison with NaN is false.\<close>

definition js_ge :: "jsnum \<Rightarrow> int \<Rightarrow> bool" where
  "js_ge x q =
     (case x of
        Fin m e \<Rightarrow> (if 0 \<le> e then q \<le> m * 2 ^ nat e else q * 2 ^ nat (- e) \<le> m)
      | PosInf \<Rightarrow> True
      | NegInf \<Rightarrow> False
      | NaN \<Rightarrow> False)"

text \<open>The percentage of both resolution tests: \<^verbatim>\<open>(a / b) * 100\<close>.\<close>

definition percentage :: "int \<Rightarrow> int \<Rightarrow> jsnum" where
  "percentage a b = js_mul (js_div a b) 100"

text \<open>The rational number that the finite double \<open>Fin m e\<close> stands for.\<close>

definition dval :: "int \<Rightarrow> int \<Rightarrow> rat" where
  "dval m e = of_int m * 2 powi e"

section \<open>Request values and validators\<close>

text \<open>
  A value of the parsed JSON body, as far as the vote field needs it. The other body fields
  are modelled at the type their validator asks for, \<open>None\<close> standing for an omitted field.
\<close>

datatype js_value = JUndefined | JNull | JBool bool | JNum int | JStr string

text \<open>
  \<^verbatim>\<open>body('vote').isBoolean()\<close>: the validation library turns the value into a string and
  accepts the four strings \<^verbatim>\<open>true\<close>, \<^verbatim>\<open>false\<close>, \<^verbatim>\<open>1\<close>, \<^verbatim>\<open>0\<close>; a missing or null value
  becomes the empty string.
\<close>

fun isBoolean :: "js_value \<Rightarrow> bool" where
  "isBoolean (JBool b) = True"
| "isBoolean (JNum n) = (n = 0 \<or> n = 1)"
| "isBoolean (JStr s) = (s = ''true'' \<or> s = ''false'' \<or> s = ''1'' \<or> s = ''0'')"
| "isBoolean JUndefined = False"
| "isBoolean JNull = False"


text \<open>\<^verbatim>\<open>isInt({ min, max })\<close> on a field that holds an integer; a missing field fails.\<close>

fun isInt :: "int \<Rightarrow> int \<Rightarrow> int option \<Rightarrow> bool" where
  "isInt lo hi None = False"
| "isInt lo hi (Some n) = (lo \<le> n \<and> n \<le> hi)"

definition is_hex_digit :: "char \<Rightarrow> bool" where
  "is_hex_digit c = (c \<in> set ''0123456789abcdefABCDEF'')"

text \<open>\<^verbatim>\<open>isUUID()\<close>: five groups of 8, 4, 4, 4 and 12 hexadecimal digits, joined by hyphens.\<close>

definition isUUID :: "string \<Rightarrow> bool" where
  "isUUID s =
     list_all2 (\<lambda>p c. if p = CHR ''-'' then c = CHR ''-'' else is_hex_digit c)
       ''xxxxxxxx-xxxx-xxxx-xxxx-xxxxxxxxxxxx'' s"

text \<open>\<^verbatim>\<open>isHexadecimal()\<close>: one or more hexadecimal digits after an optional \<^verbatim>\<open>0x\<close> or
  \<^verbatim>\<open>0h\<close>.\<close>

definition hex_digits :: "string \<Rightarrow> bool" where
  "hex_digits s = (s \<noteq> [] \<and> list_all is_hex_digit s)"

definition isHexadecimal :: "string \<Rightarrow> bool" where
  "isHexadecimal s =
     (hex_digits s \<or>
      (take 2 s \<in> set [''0x'', ''0X'', ''0h'', ''0H''] \<and> hex_digits (drop 2 s)))"

text \<open>
  A string is a list of code units below 256. Of the white space of JavaScript, which
  \<^verbatim>\<open>trim()\<close> strips, seven code units are in that range: tab, line feed, vertical tab, form
  feed, carriage return, space and the no-break space U+00A0.
\<close>

definition is_space :: "char \<Rightarrow> bool" where
  "is_space c =
     (c \<in> set [CHR 0x09, CHR 0x0A, CHR 0x0B, CHR 0x0C, CHR 0x0D, CHR 0x20, CHR 0xA0])"

text \<open>The sanitizer \<^verbatim>\<open>trim()\<close> and the validator \<^verbatim>\<open>isLength({ min, max })\<close>.\<close>

definition trim :: "string \<Rightarrow> string" where
  "trim s = rev (dropWhile is_space (rev (dropWhile is_space s)))"

definition isLength :: "nat \<Rightarrow> nat \<Rightarrow> string \<Rightarrow> bool" where
  "isLength lo hi s = (lo \<le> length s \<and> length s \<le> hi)"

text \<open>The fields a validator chain can report in \<^verbatim>\<open>errors.array()\<close>.\<close>

datatype field =
  F_communityId | F_proposalId | F_title | F_description | F_type | F_votingDuration
  | F_requiredQuorum | F_passingThreshold | F_gasRequired | F_vote | F_txHash
  | F_status | F_page | F_limit

definition check :: "bool \<Rightarrow> field \<Rightarrow> field list" where
  "check ok f = (if ok then [] else [f])"

text \<open>\<^verbatim>\<open>.optional()\<close>: an omitted field is not validated.\<close>

definition optional :: "('a \<Rightarrow> bool) \<Rightarrow> 'a option \<Rightarrow> field \<Rightarrow> field list" where
  "optional ok v f = (case v of None \<Rightarrow> [] | Some x \<Rightarrow> check (ok x) f)"

section \<open>Errors\<close>

text \<open>
  Every \<^verbatim>\<open>throw new ApiError(status, message)\<close> of the three governance handlers, and the
  two ways the store or the runtime can refuse. In the words of the specification:
  \<open>ValidationFailed\<close> (400, with the failing fields) is ValidationError and InvalidRange,
  \<open>NotAMember\<close> and \<open>PermissionMissing\<close> (both 403) are PermissionDenied,
  \<open>ProposalNotFound\<close> is 404, \<open>ProposalNotActive\<close> and \<open>VotingPeriodEnded\<close> (both 400) are
  ProposalNotActive and VotingWindowClosed, \<open>AlreadyVoted\<close> (409) is DuplicateVote.
\<close>

datatype api_error =
  ValidationFailed "field list"
  | NotAMember
  | PermissionMissing
  | ProposalNotFound
  | ProposalNotActive
  | VotingPeriodEnded
  | AlreadyVoted
  | TxHashRequired
  | StoreRejected
  | RuntimeTypeError

fun statusCode :: "api_error \<Rightarrow> nat" where
  "statusCode (ValidationFailed fs) = 400"
| "statusCode NotAMember = 403"
| "statusCode PermissionMissing = 403"
| "statusCode ProposalNotFound = 404"
| "statusCode ProposalNotActive = 400"
| "statusCode VotingPeriodEnded = 400"
| "statusCode AlreadyVoted = 409"
| "statusCode TxHashRequired = 400"
| "statusCode StoreRejected = 500"
| "statusCode RuntimeTypeError = 500"

section \<open>The store\<close>

datatype voting_power = EQUAL | TOKEN_WEIGHTED | NFT_WEIGHTED

datatype proposal_status = ACTIVE | PASSED | FAILED | EXECUTED

record community =
  memberCount :: int
  votingPower :: voting_power

text \<open>A membership row with its roles included; a role is its list of permissions.\<close>

type_synonym role = "string list"

record proposal =
  proposal_id :: string
  communityId :: string
  title :: string
  description :: string
  ptype :: string
  votingStartsAt :: int
  votingEndsAt :: int
  requiredQuorum :: int
  passingThreshold :: int
  gasRequired :: bool
  status :: proposal_status
  yesVotes :: int
  noVotes :: int
  totalVotes :: int

record proposal_vote =
  proposalId :: string
  userId :: string
  vote :: bool
  weight :: int

text \<open>
  The tables the governance handlers touch. Proposals are kept in the order of their
  creation and votes in the order of their insertion. Times are milliseconds since the epoch.
\<close>

record store =
  communities :: "string \<Rightarrow> community option"
  members :: "string \<times> string \<Rightarrow> role list option"
  proposals :: "proposal list"
  votes :: "proposal_vote list"

text \<open>\<^verbatim>\<open>prisma.proposal.findUnique({ where: { id } })\<close>\<close>

definition find_proposal :: "store \<Rightarrow> string \<Rightarrow> proposal option" where
  "find_proposal s pid = find (\<lambda>p. proposal_id p = pid) (proposals s)"

text \<open>The included relation \<^verbatim>\<open>votes: { where: { userId } }\<close> of one proposal.\<close>

definition votes_of :: "store \<Rightarrow> string \<Rightarrow> string \<Rightarrow> proposal_vote list" where
  "votes_of s pid uid = filter (\<lambda>v. proposalId v = pid \<and> userId v = uid) (votes s)"

text \<open>\<^verbatim>\<open>prisma.proposal.update({ where: { id }, data })\<close>\<close>

definition update_proposal :: "string \<Rightarrow> (proposal \<Rightarrow> proposal) \<Rightarrow> store \<Rightarrow> store" where
  "update_proposal pid f s =
     s\<lparr>proposals := map (\<lambda>p. if proposal_id p = pid then f p else p) (proposals s)\<rparr>"

text \<open>\<^verbatim>\<open>membership.roles.some(mr => mr.role.permissions.includes(perm))\<close>\<close>

definition has_permission :: "role list \<Rightarrow> string \<Rightarrow> bool" where
  "has_permission roles perm = list_ex (\<lambda>permissions. perm \<in> set permissions) roles"

section \<open>Creating a proposal\<close>

text \<open>The request of \<^verbatim>\<open>POST /:communityId/proposals\<close>: the authenticated user, the
  route parameter and the body.\<close>

record create_request =
  cr_user :: string
  cr_communityId :: string
  cr_title :: string
  cr_description :: string
  cr_type :: string
  cr_votingDuration :: "int option"
  cr_requiredQuorum :: "int option"
  cr_passingThreshold :: "int option"
  cr_gasRequired :: "bool option"

definition create_validators :: "create_request \<Rightarrow> field list" where
  "create_validators r =
     check (isUUID (cr_communityId r)) F_communityId
     @ check (isLength 5 100 (trim (cr_title r))) F_title
     @ check (isLength 20 2000 (trim (cr_description r))) F_description
     @ check (cr_type r \<in> set [''FUNDING'', ''GOVERNANCE'', ''BOUNTY'', ''GENERAL'']) F_type
     @ check (isInt 1 168 (cr_votingDuration r)) F_votingDuration
     @ optional (\<lambda>q. isInt 1 100 (Some q)) (cr_requiredQuorum r) F_requiredQuorum
     @ optional (\<lambda>t. isInt 1 100 (Some t)) (cr_passingThreshold r) F_passingThreshold
     @ optional (\<lambda>g. True) (cr_gasRequired r) F_gasRequired"

text \<open>The destructuring defaults \<^verbatim>\<open>requiredQuorum = 50, passingThreshold = 50,
  gasRequired = false\<close>.\<close>

definition default_to :: "'a \<Rightarrow> 'a option \<Rightarrow> 'a" where
  "default_to d v = (case v of None \<Rightarrow> d | Some x \<Rightarrow> x)"

text \<open>
  Modelled from the spec: the column defaults of the proposal table, declared in
  \<^verbatim>\<open>prisma/schema.prisma\<close>, which is not among the sources. The handler passes no tally to
  \<^verbatim>\<open>prisma.proposal.create\<close>; the specification has the three tallies start at zero. The
  key of the new row is generated by the store: it is the argument \<open>new_id\<close>, and a key
  already in use is refused by the store.
\<close>

definition new_proposal :: "string \<Rightarrow> create_request \<Rightarrow> int \<Rightarrow> int \<Rightarrow> proposal" where
  "new_proposal new_id r startsAt endsAt =
     \<lparr>proposal_id = new_id,
      communityId = cr_communityId r,
      title = trim (cr_title r),
      description = trim (cr_description r),
      ptype = cr_type r,
      votingStartsAt = startsAt,
      votingEndsAt = endsAt,
      requiredQuorum = default_to 50 (cr_requiredQuorum r),
      passingThreshold = default_to 50 (cr_passingThreshold r),
      gasRequired = default_to False (cr_gasRequired r),
      status = ACTIVE,
      yesVotes = 0,
      noVotes = 0,
      totalVotes = 0\<rparr>"

record create_response =
  created :: proposal
  created_canVote :: bool
  created_hasVoted :: bool
  created_timeRemaining :: int

text \<open>The handler; \<open>now\<close> is the value of \<^verbatim>\<open>new Date()\<close>. A request without a voting
  duration never passes the validators; had it passed, the end of the window would be an
  invalid date, which the store refuses.\<close>

definition createProposal ::
  "store \<Rightarrow> create_request \<Rightarrow> string \<Rightarrow> int \<Rightarrow> (api_error + create_response) \<times> store" where
  "createProposal s r new_id now =
     (let errors = create_validators r
      in if errors \<noteq> [] then (Inl (ValidationFailed errors), s)
      else case members s (cr_user r, cr_communityId r) of
        None \<Rightarrow> (Inl NotAMember, s)
      | Some roles \<Rightarrow>
          if \<not> has_permission roles ''CREATE_PROPOSALS'' then (Inl PermissionMissing, s)
          else
            (case cr_votingDuration r of
               None \<Rightarrow> (Inl StoreRejected, s)
             | Some votingDuration \<Rightarrow>
                 let votingStartsAt = now;
                     votingEndsAt = votingStartsAt + votingDuration * 60 * 60 * 1000;
                     p = new_proposal new_id r votingStartsAt votingEndsAt
                 in if find_proposal s new_id \<noteq> None then (Inl StoreRejected, s)
                    else (Inr \<lparr>created = p, created_canVote = True, created_hasVoted = False,
                               created_timeRemaining = votingDuration * 60 * 60 * 1000\<rparr>,
                          s\<lparr>proposals := proposals s @ [p]\<rparr>)))"

section \<open>Casting a vote\<close>

record vote_request =
  vr_user :: string
  vr_communityId :: string
  vr_proposalId :: string
  vr_vote :: js_value
  vr_txHash :: "string option"

definition vote_validators :: "vote_request \<Rightarrow> field list" where
  "vote_validators r =
     check (isUUID (vr_communityId r)) F_communityId
     @ check (isUUID (vr_proposalId r)) F_proposalId
     @ check (isBoolean (vr_vote r)) F_vote
     @ optional isHexadecimal (vr_txHash r) F_txHash"

text \<open>\<^verbatim>\<open>!txHash\<close>: a missing or empty transaction hash.\<close>

definition no_txHash :: "string option \<Rightarrow> bool" where
  "no_txHash h = (case h of None \<Rightarrow> True | Some x \<Rightarrow> x = [])"

text \<open>The voting weight: 1 by default, and 1 again in both weighted modes.\<close>

definition votingWeight :: "voting_power \<Rightarrow> int" where
  "votingWeight vp =
     (let w = 1
      in if vp = TOKEN_WEIGHTED then 1 else if vp = NFT_WEIGHTED then 1 else w)"

text \<open>The increments of \<^verbatim>\<open>updateData\<close>.\<close>

definition apply_tally :: "bool \<Rightarrow> int \<Rightarrow> proposal \<Rightarrow> proposal" where
  "apply_tally v w p =
     (let p1 = (if v then p\<lparr>yesVotes := yesVotes p + w\<rparr> else p\<lparr>noVotes := noVotes p + w\<rparr>)
      in p1\<lparr>totalVotes := totalVotes p1 + w\<rparr>)"

definition participationRate :: "proposal \<Rightarrow> int \<Rightarrow> jsnum" where
  "participationRate updatedProposal totalMembers =
     percentage (totalVotes updatedProposal) totalMembers"

definition yesPercentage :: "proposal \<Rightarrow> jsnum" where
  "yesPercentage updatedProposal =
     percentage (yesVotes updatedProposal) (totalVotes updatedProposal)"

text \<open>
  The check that follows the tally update: the status it writes, if it writes one. \<open>now\<close> is
  the clock read of this check, taken after the store was written.
\<close>

definition resolution_check :: "proposal \<Rightarrow> int \<Rightarrow> int \<Rightarrow> proposal_status option" where
  "resolution_check updatedProposal totalMembers now =
     (if js_ge (participationRate updatedProposal totalMembers) (requiredQuorum updatedProposal)
      then
        if js_ge (yesPercentage updatedProposal) (passingThreshold updatedProposal)
        then Some PASSED
        else if votingEndsAt updatedProposal < now then Some FAILED
        else None
      else None)"

text \<open>The answer to a recorded vote. The handler sends the participation rate through
  \<^verbatim>\<open>toFixed(1)\<close>; the number itself is kept here.\<close>

record vote_response =
  cast_vote :: bool
  cast_weight :: int
  cast_yesVotes :: int
  cast_noVotes :: int
  cast_totalVotes :: int
  cast_participationRate :: jsnum

text \<open>
  What the handler does once every guard has passed: insert the vote, increment the
  tallies, run the resolution check.
\<close>

definition record_vote ::
  "store \<Rightarrow> vote_request \<Rightarrow> proposal \<Rightarrow> community \<Rightarrow> bool \<Rightarrow> int \<Rightarrow> vote_response \<times> store" where
  "record_vote s r p c v now =
     (let votingWeight = votingWeight (votingPower c);
          s1 = s\<lparr>votes := votes s @ [\<lparr>proposalId = vr_proposalId r, userId = vr_user r,
                                       vote = v, weight = votingWeight\<rparr>]\<rparr>;
          updatedProposal = apply_tally v votingWeight p;
          s2 = update_proposal (vr_proposalId r) (apply_tally v votingWeight) s1;
          totalMembers = memberCount c;
          s3 = (case resolution_check updatedProposal totalMembers now of
                  Some st \<Rightarrow> update_proposal (vr_proposalId r) (\<lambda>q. q\<lparr>status := st\<rparr>) s2
                | None \<Rightarrow> s2)
      in (\<lparr>cast_vote = v, cast_weight = votingWeight,
           cast_yesVotes = yesVotes updatedProposal,
           cast_noVotes = noVotes updatedProposal,
           cast_totalVotes = totalVotes updatedProposal,
           cast_participationRate = participationRate updatedProposal totalMembers\<rparr>, s3))"

text \<open>
  The handler of \<^verbatim>\<open>POST /:communityId/proposals/:proposalId/vote\<close> awaits the store
  between its reads and its writes, and it runs in no transaction. It is modelled in two
  parts: the guards, which read, and the writes. What a request carries from its guards to
  its writes is its own body and the community it read with the proposal.
\<close>

record admission =
  adm_request :: vote_request
  adm_community :: community

text \<open>
  The guards, from the validation gate to the voting weight: the store is read (the
  proposal with its community and the votes of the user, then the membership) and every
  \<^verbatim>\<open>throw new ApiError\<close> of the handler is here. \<open>now\<close> is the clock read of the window
  guard.
\<close>

definition admit_vote :: "store \<Rightarrow> vote_request \<Rightarrow> int \<Rightarrow> api_error + admission" where
  "admit_vote s r now =
     (let errors = vote_validators r
      in if errors \<noteq> [] then Inl (ValidationFailed errors)
      else case find_proposal s (vr_proposalId r) of
        None \<Rightarrow> Inl ProposalNotFound
      | Some p \<Rightarrow>
          if communityId p \<noteq> vr_communityId r then Inl ProposalNotFound
          else if status p \<noteq> ACTIVE then Inl ProposalNotActive
          else if votingEndsAt p < now then Inl VotingPeriodEnded
          else if votes_of s (vr_proposalId r) (vr_user r) \<noteq> [] then Inl AlreadyVoted
          else
            (case members s (vr_user r, vr_communityId r) of
               None \<Rightarrow> Inl NotAMember
             | Some roles \<Rightarrow>
                 if \<not> has_permission roles ''VOTE'' then Inl PermissionMissing
                 else if gasRequired p \<and> no_txHash (vr_txHash r) then Inl TxHashRequired
                 else
                   (case communities s (communityId p) of
                      None \<Rightarrow> Inl RuntimeTypeError
                    | Some c \<Rightarrow> Inr \<lparr>adm_request = r, adm_community = c\<rparr>)))"

text \<open>
  The writes, on the store as it is when they run: the vote row, the increments on the
  stored row of the proposal, which \<^verbatim>\<open>prisma.proposal.update\<close> hands back as
  \<^verbatim>\<open>updatedProposal\<close>, and the resolution check, whose status write does not look at the
  stored status. \<open>now\<close> is the clock read of the resolution check. The three writes are
  taken as one step.

  Modelled from the spec: the vote table, declared in \<^verbatim>\<open>prisma/schema.prisma\<close>, which is
  not among the sources. A vote's choice is yes or no, a boolean column, so
  \<^verbatim>\<open>prisma.proposalVote.create\<close> refuses a value that passed \<^verbatim>\<open>isBoolean()\<close> as a string
  or a number, before it writes. A vote belongs to exactly one proposal, so a vote for a
  proposal that is not stored is refused as well; no handler deletes a proposal.
\<close>

definition commit_vote ::
  "store \<Rightarrow> admission \<Rightarrow> int \<Rightarrow> (api_error + vote_response) \<times> store" where
  "commit_vote s a now =
     (let r = adm_request a
      in case vr_vote r of
           JBool v \<Rightarrow>
             (case find_proposal s (vr_proposalId r) of
                None \<Rightarrow> (Inl StoreRejected, s)
              | Some stored \<Rightarrow> apfst Inr (record_vote s r stored (adm_community a) v now))
         | _ \<Rightarrow> (Inl StoreRejected, s))"

text \<open>
  A request that no other request overlaps: its writes meet the store its guards have read.
  It reads the clock twice: \<open>now1\<close> at the window guard, \<open>now2\<close> in the resolution check.
\<close>

definition castVote ::
  "store \<Rightarrow> vote_request \<Rightarrow> int \<Rightarrow> int \<Rightarrow> (api_error + vote_response) \<times> store" where
  "castVote s r now1 now2 =
     (case admit_vote s r now1 of
        Inl e \<Rightarrow> (Inl e, s)
      | Inr a \<Rightarrow> commit_vote s a now2)"

section \<open>Reading the proposals of a community\<close>

text \<open>
  The request of \<^verbatim>\<open>GET /:communityId/proposals\<close>. The page is a number of 32 bits. For
  such a page \<^verbatim>\<open>(page - 1) * limit\<close> is exact in the numbers of JavaScript and
  \<^verbatim>\<open>parseInt(skip)\<close> is \<open>skip\<close>; a page of more than 15 digits is outside the model, where
  the product is rounded and, from \<^verbatim>\<open>1e21\<close> on, \<^verbatim>\<open>parseInt\<close> reads the exponent notation.
\<close>

record list_request =
  lr_user :: string
  lr_communityId :: string
  lr_status :: "string option"
  lr_page :: "32 word option"
  lr_limit :: "int option"

definition list_validators :: "list_request \<Rightarrow> field list" where
  "list_validators r =
     check (isUUID (lr_communityId r)) F_communityId
     @ optional (\<lambda>st. st \<in> set [''ACTIVE'', ''PASSED'', ''FAILED'', ''EXECUTED'']) (lr_status r)
         F_status
     @ optional (\<lambda>n. 1 \<le> uint n) (lr_page r) F_page
     @ optional (\<lambda>n. isInt 1 50 (Some n)) (lr_limit r) F_limit"

fun status_name :: "proposal_status \<Rightarrow> string" where
  "status_name ACTIVE = ''ACTIVE''"
| "status_name PASSED = ''PASSED''"
| "status_name FAILED = ''FAILED''"
| "status_name EXECUTED = ''EXECUTED''"

text \<open>
  One entry of the answer. \<^verbatim>\<open>userVote?.vote || null\<close> is \<open>Some True\<close> for a yes vote and
  null otherwise. The handler did not include the community in its membership query, so
  \<^verbatim>\<open>(proposal.totalVotes / membership.community?.memberCount || 1) * 100\<close> divides by
  \<^verbatim>\<open>undefined\<close>, falls back to 1, and the rate shown is \<^verbatim>\<open>100.0\<close> for every proposal.
\<close>

record proposal_view =
  view_of :: proposal
  hasVoted :: bool
  userVote :: "bool option"
  timeRemaining :: int
  isActive :: bool
  view_participationRate :: string
  canVote :: bool

definition format_proposal :: "store \<Rightarrow> string \<Rightarrow> int \<Rightarrow> proposal \<Rightarrow> proposal_view" where
  "format_proposal s uid now p =
     (let user_votes = votes_of s (proposal_id p) uid;
          timeRemaining = max 0 (votingEndsAt p - now);
          isActive = (status p = ACTIVE \<and> 0 < timeRemaining)
      in \<lparr>view_of = p,
          hasVoted = (user_votes \<noteq> []),
          userVote = (case user_votes of [] \<Rightarrow> None
                      | v # vs \<Rightarrow> if vote v then Some True else None),
          timeRemaining = timeRemaining,
          isActive = isActive,
          view_participationRate = ''100.0'',
          canVote = (isActive \<and> user_votes = [])\<rparr>)"

text \<open>\<^verbatim>\<open>if (status) { whereClause.status = status; }\<close>\<close>

definition status_matches :: "list_request \<Rightarrow> proposal \<Rightarrow> bool" where
  "status_matches r p =
     (case lr_status r of None \<Rightarrow> True | Some st \<Rightarrow> status_name (status p) = st)"

text \<open>
  The handler of \<^verbatim>\<open>GET /:communityId/proposals\<close>, the only read of proposals among the
  sources. It filters by community and by the optional status, orders by creation time,
  newest first, and cuts the page out. It calls no write of the store, which it hands back
  as it got it.
\<close>

definition getProposals ::
  "store \<Rightarrow> list_request \<Rightarrow> int \<Rightarrow> (api_error + proposal_view list) \<times> store" where
  "getProposals s r now =
     (let errors = list_validators r
      in if errors \<noteq> [] then (Inl (ValidationFailed errors), s)
      else
        let page = (case lr_page r of None \<Rightarrow> 1 | Some n \<Rightarrow> uint n);
            limit = default_to 10 (lr_limit r);
            skip = (page - 1) * limit
        in case members s (lr_user r, lr_communityId r) of
          None \<Rightarrow> (Inl NotAMember, s)
        | Some roles \<Rightarrow>
            let found = filter (\<lambda>p. communityId p = lr_communityId r \<and> status_matches r p)
                          (rev (proposals s))
            in (Inr (map (format_proposal s (lr_user r) now)
                      (take (nat limit) (drop (nat skip) found))), s))"

section \<open>Runs of the engine\<close>

text \<open>
  The operations that can change the store while a proposal lives. No other handler of the
  sources writes a proposal or a vote; joining a community, creating one and posting write
  communities, memberships and posts only, which \<open>Environment\<close> covers by replacing the
  communities and memberships with any others.
\<close>

datatype operation =
  CreateProposal create_request string int
  | CastVote vote_request int int
  | GetProposals list_request int
  | Environment "string \<Rightarrow> community option" "string \<times> string \<Rightarrow> role list option"

fun exec :: "store \<Rightarrow> operation \<Rightarrow> store" where
  "exec s (CreateProposal r new_id now) = snd (createProposal s r new_id now)"
| "exec s (CastVote r now1 now2) = snd (castVote s r now1 now2)"
| "exec s (GetProposals r now) = snd (getProposals s r now)"
| "exec s (Environment cs ms) = s\<lparr>communities := cs, members := ms\<rparr>"

definition run :: "store \<Rightarrow> operation list \<Rightarrow> store" where
  "run s ops = foldl exec s ops"

text \<open>The store before the first proposal.\<close>

definition initial :: "(string \<Rightarrow> community option) \<Rightarrow> (string \<times> string \<Rightarrow> role list option) \<Rightarrow> store"
  where
  "initial cs ms = \<lparr>communities = cs, members = ms, proposals = [], votes = []\<rparr>"

text \<open>
  Requests that overlap: between the guards of a vote and its writes the store may have
  been written by others. A step is a whole operation, or the writes of a vote whose guards
  have run before.
\<close>

datatype step = Whole operation | Writes admission int

fun exec_step :: "store \<Rightarrow> step \<Rightarrow> store" where
  "exec_step s (Whole op) = exec s op"
| "exec_step s (Writes a now) = snd (commit_vote s a now)"

definition run_steps :: "store \<Rightarrow> step list \<Rightarrow> store" where
  "run_steps s steps = foldl exec_step s steps"

section \<open>The resolution policy of the specification\<close>

text \<open>
  The two percentages of the specification, \<^verbatim>\<open>totalWeight / memberCount * 100\<close> and
  \<^verbatim>\<open>yesWeight / totalWeight * 100\<close>, in exact arithmetic. A division by zero has no value.
\<close>

definition spec_percentage :: "int \<Rightarrow> int \<Rightarrow> rat option" where
  "spec_percentage part whole =
     (if whole = 0 then None else Some (of_int part / of_int whole * 100))"


text \<open>
  The double of the program and the exact percentage of the specification are on the same
  side of the bound \<open>q\<close>.
\<close>

definition same_side :: "int \<Rightarrow> int \<Rightarrow> int \<Rightarrow> bool" where
  "same_side part whole q =
     (case spec_percentage part whole of
        None \<Rightarrow> False
      | Some pct \<Rightarrow> js_ge (percentage part whole) q = (of_int q \<le> pct))"

section \<open>Properties of stores\<close>

text \<open>The tally of a proposal is consistent: no counter is negative and the two sides add
  up to the total.\<close>

definition tally_ok :: "proposal \<Rightarrow> bool" where
  "tally_ok p =
     (yesVotes p + noVotes p = totalVotes p \<and> 0 \<le> yesVotes p \<and> 0 \<le> noVotes p
      \<and> 0 \<le> totalVotes p)"

text \<open>No counter of \<open>p\<close> is larger than it is in \<open>q\<close>.\<close>

definition tally_le :: "proposal \<Rightarrow> proposal \<Rightarrow> bool" where
  "tally_le p q =
     (yesVotes p \<le> yesVotes q \<and> noVotes p \<le> noVotes q \<and> totalVotes p \<le> totalVotes q)"

definition same_tally :: "proposal \<Rightarrow> proposal \<Rightarrow> bool" where
  "same_tally p q =
     (yesVotes p = yesVotes q \<and> noVotes p = noVotes q \<and> totalVotes p = totalVotes q)"

text \<open>A status may stay, or leave \<open>ACTIVE\<close> for \<open>PASSED\<close> or \<open>FAILED\<close>.\<close>

definition forward :: "proposal_status \<Rightarrow> proposal_status \<Rightarrow> bool" where
  "forward a b = (b = a \<or> (a = ACTIVE \<and> (b = PASSED \<or> b = FAILED)))"


definition votes_on :: "store \<Rightarrow> string \<Rightarrow> proposal_vote list" where
  "votes_on s pid = filter (\<lambda>v. proposalId v = pid) (votes s)"

text \<open>Every vote of the ledger has weight 1 and belongs to a stored proposal, and the total
  of every proposal is the number of its votes.\<close>

definition counted :: "store \<Rightarrow> bool" where
  "counted s =
     (list_all (\<lambda>v. weight v = 1 \<and> find_proposal s (proposalId v) \<noteq> None) (votes s)
      \<and> list_all (\<lambda>p. totalVotes p = int (length (votes_on s (proposal_id p)))) (proposals s))"

section \<open>A community of ten\<close>

text \<open>Concrete requests and stores, on which the theorems below are run.\<close>

definition demo_community :: string where
  "demo_community = ''c0000000-0000-4000-8000-000000000001''"

definition demo_proposal :: string where
  "demo_proposal = ''a0000000-0000-4000-8000-000000000001''"

definition demo_communities :: "int \<Rightarrow> string \<Rightarrow> community option" where
  "demo_communities n c =
     (if c = demo_community then Some \<lparr>memberCount = n, votingPower = EQUAL\<rparr> else None)"

text \<open>The roles are the ones the community handler creates: the administrator may create
  proposals, the members may vote; \<open>guest\<close> is a member without any role.\<close>

definition demo_members :: "string \<times> string \<Rightarrow> role list option" where
  "demo_members k =
     (if snd k \<noteq> demo_community then None
      else if fst k = ''admin''
        then Some [[''MANAGE_COMMUNITY'', ''MANAGE_MEMBERS'', ''CREATE_PROPOSALS'', ''MANAGE_ROLES'']]
      else if fst k \<in> set [''u1'', ''u2'', ''u3'', ''u4'', ''u5'']
        then Some [[''POST'', ''COMMENT'', ''VOTE'']]
      else if fst k = ''guest'' then Some []
      else None)"

definition demo_create :: "string \<Rightarrow> int option \<Rightarrow> int option \<Rightarrow> int option \<Rightarrow> create_request" where
  "demo_create u d q t =
     \<lparr>cr_user = u, cr_communityId = demo_community, cr_title = ''Fund the library'',
      cr_description = ''Spend the treasury on a public library'', cr_type = ''FUNDING'',
      cr_votingDuration = d, cr_requiredQuorum = q, cr_passingThreshold = t,
      cr_gasRequired = None\<rparr>"

definition demo_vote :: "string \<Rightarrow> js_value \<Rightarrow> vote_request" where
  "demo_vote u v =
     \<lparr>vr_user = u, vr_communityId = demo_community, vr_proposalId = demo_proposal,
      vr_vote = v, vr_txHash = None\<rparr>"

definition demo_list :: "string \<Rightarrow> list_request" where
  "demo_list u =
     \<lparr>lr_user = u, lr_communityId = demo_community, lr_status = None, lr_page = None,
      lr_limit = None\<rparr>"

text \<open>A community of \<open>n\<close> members in which the administrator has opened, at time 1000, a
  proposal of 24 hours with quorum \<open>q\<close> and threshold \<open>t\<close>; its window ends at 86401000.\<close>

definition demo_store :: "int \<Rightarrow> int \<Rightarrow> int \<Rightarrow> store" where
  "demo_store n q t =
     exec (initial (demo_communities n) demo_members)
       (CreateProposal (demo_create ''admin'' (Some 24) (Some q) (Some t)) demo_proposal 1000)"

text \<open>The same proposal in a community of two, after \<open>u1\<close> voted yes at time 2000: half of the
  members took part and all of them said yes, so it has passed.\<close>

definition demo_passed :: store where
  "demo_passed = exec (demo_store 2 50 60) (CastVote (demo_vote ''u1'' (JBool True)) 2000 2001)"

text \<open>The proposal in the community of ten, still open after \<open>u1\<close> voted yes.\<close>

definition demo_voted :: store where
  "demo_voted = exec (demo_store 10 50 60) (CastVote (demo_vote ''u1'' (JBool True)) 2000 2001)"

text \<open>The open proposal after the community has changed its voting power to \<open>vp\<close>.\<close>

definition demo_weighted :: "voting_power \<Rightarrow> store" where
  "demo_weighted vp =
     exec (demo_store 10 50 60)
       (Environment
          (\<lambda>c. if c = demo_community then Some \<lparr>memberCount = 10, votingPower = vp\<rparr> else None)
          demo_members)"

text \<open>The proposal in the community of ten after a yes of \<open>u1\<close> and a no of \<open>u2\<close>: two of
  ten members have voted, which is short of the quorum of 50 percent.\<close>

definition demo_two_votes :: store where
  "demo_two_votes =
     run (demo_store 10 50 60)
       [CastVote (demo_vote ''u1'' (JBool True)) 2000 2001,
        CastVote (demo_vote ''u2'' (JBool False)) 2000 2001]"

text \<open>A community whose voting power is weighted by holdings, and a run in it: a proposal
  is opened, \<open>u1\<close> votes yes and \<open>u2\<close> votes no.\<close>

definition demo_nft_communities :: "string \<Rightarrow> community option" where
  "demo_nft_communities c =
     (if c = demo_community then Some \<lparr>memberCount = 10, votingPower = NFT_WEIGHTED\<rparr> else None)"

definition demo_ops :: "operation list" where
  "demo_ops =
     [CreateProposal (demo_create ''admin'' (Some 24) (Some 50) (Some 60)) demo_proposal 1000,
      CastVote (demo_vote ''u1'' (JBool True)) 2000 2001,
      CastVote (demo_vote ''u2'' (JBool False)) 3000 3001]"




text \<open>The operations that are votes.\<close>

fun is_vote :: "operation \<Rightarrow> bool" where
  "is_vote (CastVote r now1 now2) = True"
| "is_vote (CreateProposal r new_id now) = False"
| "is_vote (GetProposals r now) = False"
| "is_vote (Environment cs ms) = False"

section \<open>Lemmas on the handlers\<close>

lemma votingWeight_one: "votingWeight vp = 1"
  by (simp add: votingWeight_def)

lemma apply_tally_id: "proposal_id (apply_tally v w p) = proposal_id p"
  by (simp add: apply_tally_def Let_def)

lemma apply_tally_fields:
  "status (apply_tally v w p) = status p"
  "communityId (apply_tally v w p) = communityId p"
  "requiredQuorum (apply_tally v w p) = requiredQuorum p"
  "passingThreshold (apply_tally v w p) = passingThreshold p"
  "votingEndsAt (apply_tally v w p) = votingEndsAt p"
  "totalVotes (apply_tally v w p) = totalVotes p + w"
  "yesVotes (apply_tally v w p) = (if v then yesVotes p + w else yesVotes p)"
  "noVotes (apply_tally v w p) = (if v then noVotes p else noVotes p + w)"
  by (simp_all add: apply_tally_def Let_def)

lemma find_map_id:
  assumes "\<And>p. proposal_id (f p) = proposal_id p"
  shows "find (\<lambda>p. proposal_id p = k) (map (\<lambda>p. if proposal_id p = pid then f p else p) ps)
         = (if k = pid then map_option f (find (\<lambda>p. proposal_id p = k) ps)
            else find (\<lambda>p. proposal_id p = k) ps)"
  using assms by (induction ps) auto

lemma find_proposal_votes [simp]: "find_proposal (s\<lparr>votes := vs\<rparr>) k = find_proposal s k"
  by (simp add: find_proposal_def)

lemma find_proposal_env [simp]:
  "find_proposal (s\<lparr>communities := cs, members := ms\<rparr>) k = find_proposal s k"
  by (simp add: find_proposal_def)

lemma find_proposal_append:
  "find_proposal (s\<lparr>proposals := proposals s @ [p]\<rparr>) k
   = (case find_proposal s k of Some q \<Rightarrow> Some q
      | None \<Rightarrow> if proposal_id p = k then Some p else None)"
proof -
  have "find P (xs @ [x]) = (case find P xs of Some q \<Rightarrow> Some q
                            | None \<Rightarrow> if P x then Some x else None)"
    for P and xs :: "proposal list" and x
    by (induction xs) auto
  then show ?thesis by (simp add: find_proposal_def)
qed

lemma find_proposal_id: "find_proposal s k = Some p \<Longrightarrow> proposal_id p = k"
  by (auto simp: find_proposal_def find_Some_iff)

lemma find_proposal_mem: "find_proposal s k = Some p \<Longrightarrow> p \<in> set (proposals s)"
  by (auto simp: find_proposal_def find_Some_iff)

text \<open>What an admitted vote writes.\<close>

lemma record_vote_store:
  assumes "record_vote s r p c v now = (resp, s')"
  shows "votes s' = votes s @ [\<lparr>proposalId = vr_proposalId r, userId = vr_user r, vote = v, weight = 1\<rparr>]"
    and "communities s' = communities s" and "members s' = members s"
    and "proposals s' = map (\<lambda>q. if proposal_id q = vr_proposalId r
            then (case resolution_check (apply_tally v 1 p) (memberCount c) now of
                    None \<Rightarrow> apply_tally v 1 q
                  | Some st \<Rightarrow> (apply_tally v 1 q)\<lparr>status := st\<rparr>)
            else q) (proposals s)"
  using assms
  by (auto simp: record_vote_def Let_def votingWeight_one update_proposal_def apply_tally_id
           split: option.splits)

text \<open>The guards and the writes of one request, run on one store, written out.\<close>

lemma castVote_eq:
  "castVote s r now1 now2 =
     (let errors = vote_validators r
      in if errors \<noteq> [] then (Inl (ValidationFailed errors), s)
      else case find_proposal s (vr_proposalId r) of
        None \<Rightarrow> (Inl ProposalNotFound, s)
      | Some p \<Rightarrow>
          if communityId p \<noteq> vr_communityId r then (Inl ProposalNotFound, s)
          else if status p \<noteq> ACTIVE then (Inl ProposalNotActive, s)
          else if votingEndsAt p < now1 then (Inl VotingPeriodEnded, s)
          else if votes_of s (vr_proposalId r) (vr_user r) \<noteq> [] then (Inl AlreadyVoted, s)
          else
            (case members s (vr_user r, vr_communityId r) of
               None \<Rightarrow> (Inl NotAMember, s)
             | Some roles \<Rightarrow>
                 if \<not> has_permission roles ''VOTE'' then (Inl PermissionMissing, s)
                 else if gasRequired p \<and> no_txHash (vr_txHash r) then (Inl TxHashRequired, s)
                 else
                   (case communities s (communityId p) of
                      None \<Rightarrow> (Inl RuntimeTypeError, s)
                    | Some c \<Rightarrow>
                        (case vr_vote r of
                           JBool v \<Rightarrow> apfst Inr (record_vote s r p c v now2)
                         | _ \<Rightarrow> (Inl StoreRejected, s)))))"
  by (auto simp: castVote_def admit_vote_def commit_vote_def Let_def
           split: option.splits js_value.splits)

lemma commit_vote_failure: "commit_vote s a now = (Inl e, s') \<Longrightarrow> s' = s"
  by (auto simp: commit_vote_def Let_def apfst_def map_prod_def
           split: option.splits js_value.splits prod.splits)

lemma castVote_failure: "castVote s r now1 now2 = (Inl e, s') \<Longrightarrow> s' = s"
  by (auto simp: castVote_eq Let_def apfst_def map_prod_def
           split: if_splits option.splits js_value.splits prod.splits)

lemma castVote_success:
  assumes "castVote s r now1 now2 = (Inr resp, s')"
  shows "\<exists>p c v roles. vote_validators r = [] \<and> find_proposal s (vr_proposalId r) = Some p
           \<and> communityId p = vr_communityId r \<and> status p = ACTIVE \<and> \<not> votingEndsAt p < now1
           \<and> votes_of s (vr_proposalId r) (vr_user r) = []
           \<and> members s (vr_user r, vr_communityId r) = Some roles \<and> has_permission roles ''VOTE''
           \<and> \<not> (gasRequired p \<and> no_txHash (vr_txHash r))
           \<and> communities s (communityId p) = Some c \<and> vr_vote r = JBool v
           \<and> record_vote s r p c v now2 = (resp, s')"
  using assms
  by (auto simp: castVote_eq Let_def apfst_def map_prod_def
           split: if_splits option.splits js_value.splits prod.splits)


text \<open>The guards of the vote handler, in their order.\<close>

lemma castVote_guards:
  assumes "vote_validators r = []" "find_proposal s (vr_proposalId r) = Some p"
    "communityId p = vr_communityId r"
  shows "status p \<noteq> ACTIVE \<Longrightarrow> castVote s r now1 now2 = (Inl ProposalNotActive, s)"
    and "status p = ACTIVE \<Longrightarrow> votingEndsAt p < now1
         \<Longrightarrow> castVote s r now1 now2 = (Inl VotingPeriodEnded, s)"
    and "status p = ACTIVE \<Longrightarrow> \<not> votingEndsAt p < now1
         \<Longrightarrow> votes_of s (vr_proposalId r) (vr_user r) \<noteq> []
         \<Longrightarrow> castVote s r now1 now2 = (Inl AlreadyVoted, s)"
  using assms by (simp_all add: castVote_eq)

lemma castVote_refused:
  assumes "find_proposal s (vr_proposalId r) = Some p"
    "status p \<noteq> ACTIVE \<or> votingEndsAt p < now1"
  shows "\<exists>e. castVote s r now1 now2 = (Inl e, s)"
  using assms by (auto simp: castVote_eq Let_def)


text \<open>The shapes a step of the engine can have.\<close>

lemma createProposal_cases:
  "snd (createProposal s r k now) = s \<or>
   (\<exists>p. snd (createProposal s r k now) = s\<lparr>proposals := proposals s @ [p]\<rparr>
        \<and> find_proposal s (proposal_id p) = None \<and> status p = ACTIVE
        \<and> yesVotes p = 0 \<and> noVotes p = 0 \<and> totalVotes p = 0)"
  by (auto simp: createProposal_def Let_def new_proposal_def split: option.splits)

lemma getProposals_store: "snd (getProposals s r now) = s"
  by (simp add: getProposals_def Let_def split: option.splits)

lemma castVote_cases:
  "snd (castVote s r now1 now2) = s \<or>
   (\<exists>p c v resp. find_proposal s (vr_proposalId r) = Some p \<and> status p = ACTIVE
        \<and> votes_of s (vr_proposalId r) (vr_user r) = []
        \<and> record_vote s r p c v now2 = (resp, snd (castVote s r now1 now2)))"
proof (cases "castVote s r now1 now2")
  case (Pair res s')
  show ?thesis
  proof (cases res)
    case (Inl e)
    with Pair castVote_failure show ?thesis by fastforce
  next
    case (Inr resp)
    with Pair castVote_success [of s r now1 now2 resp s'] show ?thesis by fastforce
  qed
qed

lemma exec_cases:
  obtains (same) "exec s op = s"
  | (env) cs ms where "exec s op = s\<lparr>communities := cs, members := ms\<rparr>"
  | (create) p where "exec s op = s\<lparr>proposals := proposals s @ [p]\<rparr>"
      "find_proposal s (proposal_id p) = None" "status p = ACTIVE"
      "yesVotes p = 0" "noVotes p = 0" "totalVotes p = 0"
  | (vote) r p c v now resp where "find_proposal s (vr_proposalId r) = Some p"
      "status p = ACTIVE" "votes_of s (vr_proposalId r) (vr_user r) = []"
      "record_vote s r p c v now = (resp, exec s op)"
proof (cases op)
  case (CreateProposal r k now)
  with createProposal_cases [of s r k now] same create show ?thesis by auto
next
  case (CastVote r now1 now2)
  with castVote_cases [of s r now1 now2] same vote show ?thesis by auto
next
  case (GetProposals r now)
  with getProposals_store same show ?thesis by simp
next
  case (Environment cs ms)
  with env show ?thesis by simp
qed

lemma run_Nil [simp]: "run s [] = s"
  by (simp add: run_def)

lemma run_Cons [simp]: "run s (op # ops) = run (exec s op) ops"
  by (simp add: run_def)

section \<open>Invariants of a step\<close>




lemma tally_ok_apply: "tally_ok q \<Longrightarrow> tally_ok (apply_tally v 1 q)"
  by (simp add: tally_ok_def apply_tally_fields)

lemma tally_ok_status: "tally_ok (q\<lparr>status := st\<rparr>) = tally_ok q"
  by (simp add: tally_ok_def)

lemma exec_tally_ok:
  assumes "list_all tally_ok (proposals s)"
  shows "list_all tally_ok (proposals (exec s op))"
proof (cases rule: exec_cases [of s op])
  case same
  with assms show ?thesis by simp
next
  case (env cs ms)
  with assms show ?thesis by simp
next
  case (create p)
  with assms show ?thesis by (simp add: tally_ok_def)
next
  case (vote r p c v now resp)
  from record_vote_store(4) [OF vote(4)] assms
  show ?thesis
    by (auto simp: list_all_iff tally_ok_apply tally_ok_status split: option.splits)
qed

lemma run_tally_ok: "list_all tally_ok (proposals s) \<Longrightarrow> list_all tally_ok (proposals (run s ops))"
  by (induction ops arbitrary: s) (simp_all add: exec_tally_ok)

lemma resolution_check_terminal:
  "resolution_check u n now = Some st \<Longrightarrow> st = PASSED \<or> st = FAILED"
  by (auto simp: resolution_check_def split: if_splits)

text \<open>One step: the proposal stays, its status moves forward, its counters do not fall, and
  once it has left \<open>ACTIVE\<close> its row is never written again.\<close>

lemma exec_forward:
  assumes "find_proposal s k = Some p"
  shows "\<exists>p'. find_proposal (exec s op) k = Some p' \<and> forward (status p) (status p')
            \<and> tally_le p p' \<and> (status p \<noteq> ACTIVE \<longrightarrow> p' = p)"
proof (cases rule: exec_cases [of s op])
  case same
  with assms show ?thesis by (simp add: forward_def tally_le_def)
next
  case (env cs ms)
  with assms show ?thesis by (simp add: forward_def tally_le_def)
next
  case (create q)
  with assms show ?thesis by (simp add: find_proposal_append forward_def tally_le_def)
next
  case (vote r p0 c v now resp)
  let ?f = "\<lambda>q. case resolution_check (apply_tally v 1 p0) (memberCount c) now of
                    None \<Rightarrow> apply_tally v 1 q
                  | Some st \<Rightarrow> (apply_tally v 1 q)\<lparr>status := st\<rparr>"
  have id: "\<And>q. proposal_id (?f q) = proposal_id q"
    by (simp add: apply_tally_id split: option.splits)
  have "find_proposal (exec s op) k
        = (if k = vr_proposalId r then map_option ?f (find_proposal s k) else find_proposal s k)"
    using find_map_id [of ?f k "vr_proposalId r" "proposals s", OF id]
      record_vote_store(4) [OF vote(4)]
    by (simp add: find_proposal_def)
  moreover have "k = vr_proposalId r \<Longrightarrow> p = p0"
    using assms vote(1) by simp
  moreover have "forward ACTIVE (status (?f p0))"
    using resolution_check_terminal [of "apply_tally v 1 p0" "memberCount c" now] vote(2)
    by (auto simp: forward_def apply_tally_fields split: option.splits)
  moreover have "tally_le p0 (?f p0)"
    by (auto simp: tally_le_def apply_tally_fields split: option.splits)
  ultimately show ?thesis
    using assms vote(2) by (auto simp: forward_def tally_le_def)
qed

lemma forward_trans: "forward a b \<Longrightarrow> forward b c \<Longrightarrow> forward a c"
  by (auto simp: forward_def)

lemma tally_le_trans: "tally_le p q \<Longrightarrow> tally_le q u \<Longrightarrow> tally_le p u"
  by (auto simp: tally_le_def)

lemma run_forward:
  assumes "find_proposal s k = Some p"
  shows "\<exists>p'. find_proposal (run s ops) k = Some p' \<and> forward (status p) (status p')
            \<and> tally_le p p' \<and> (status p \<noteq> ACTIVE \<longrightarrow> p' = p)"
  using assms
proof (induction ops arbitrary: s p)
  case Nil
  then show ?case by (simp add: forward_def tally_le_def)
next
  case (Cons op ops)
  from exec_forward [OF Cons.prems, of op] obtain q where
    q: "find_proposal (exec s op) k = Some q" "forward (status p) (status q)"
       "tally_le p q" "status p \<noteq> ACTIVE \<longrightarrow> q = p"
    by blast
  from Cons.IH [OF q(1)] obtain p' where
    p': "find_proposal (run (exec s op) ops) k = Some p'" "forward (status q) (status p')"
        "tally_le q p'" "status q \<noteq> ACTIVE \<longrightarrow> p' = q"
    by blast
  from q p' show ?case
    by (auto intro: forward_trans tally_le_trans)
qed

lemma record_vote_found:
  assumes "find_proposal s (vr_proposalId r) = Some p" "record_vote s r p c v now = (resp, s')"
  shows "find_proposal s' (vr_proposalId r)
         = Some ((apply_tally v 1 p)\<lparr>status :=
              (case resolution_check (apply_tally v 1 p) (memberCount c) now of
                 None \<Rightarrow> status p | Some st \<Rightarrow> st)\<rparr>)"
proof -
  let ?f = "\<lambda>q. case resolution_check (apply_tally v 1 p) (memberCount c) now of
                    None \<Rightarrow> apply_tally v 1 q
                  | Some st \<Rightarrow> (apply_tally v 1 q)\<lparr>status := st\<rparr>"
  have id: "\<And>q. proposal_id (?f q) = proposal_id q"
    by (simp add: apply_tally_id split: option.splits)
  have "find_proposal s' (vr_proposalId r) = map_option ?f (find_proposal s (vr_proposalId r))"
    using find_map_id [of ?f "vr_proposalId r" "vr_proposalId r" "proposals s", OF id]
      record_vote_store(4) [OF assms(2)]
    by (simp add: find_proposal_def)
  with assms(1) show ?thesis
    by (simp add: apply_tally_def Let_def split: option.splits)
qed

lemma record_vote_other:
  assumes "record_vote s r p c v now = (resp, s')" "k \<noteq> vr_proposalId r"
  shows "find_proposal s' k = find_proposal s k"
proof -
  let ?f = "\<lambda>q. case resolution_check (apply_tally v 1 p) (memberCount c) now of
                    None \<Rightarrow> apply_tally v 1 q
                  | Some st \<Rightarrow> (apply_tally v 1 q)\<lparr>status := st\<rparr>"
  have id: "\<And>q. proposal_id (?f q) = proposal_id q"
    by (simp add: apply_tally_id split: option.splits)
  show ?thesis
    using find_map_id [of ?f k "vr_proposalId r" "proposals s", OF id]
      record_vote_store(4) [OF assms(1)] assms(2)
    by (simp add: find_proposal_def)
qed

lemma record_vote_response:
  assumes "record_vote s r p c v now = (resp, s')"
  shows "cast_vote resp = v" "cast_weight resp = 1"
    "cast_yesVotes resp = yesVotes (apply_tally v 1 p)"
    "cast_noVotes resp = noVotes (apply_tally v 1 p)"
    "cast_totalVotes resp = totalVotes (apply_tally v 1 p)"
  using assms by (auto simp: record_vote_def Let_def votingWeight_one)

lemma votes_on_none:
  assumes "list_all (\<lambda>v. weight v = 1 \<and> find_proposal s (proposalId v) \<noteq> None) (votes s)"
    "find_proposal s k = None"
  shows "votes_on s k = []"
  using assms by (auto simp: votes_on_def list_all_iff filter_empty_conv)

lemma exec_counted:
  assumes "counted s"
  shows "counted (exec s op)"
proof (cases rule: exec_cases [of s op])
  case same
  with assms show ?thesis by simp
next
  case (env cs ms)
  with assms show ?thesis by (simp add: counted_def votes_on_def)
next
  case (create p)
  have "votes_on s (proposal_id p) = []"
    using assms create(2) votes_on_none by (simp add: counted_def)
  with assms create show ?thesis
    by (auto simp: counted_def votes_on_def find_proposal_append list_all_iff
             split: option.splits)
next
  case (vote r p c v now resp)
  let ?s' = "exec s op"
  let ?f = "\<lambda>q. case resolution_check (apply_tally v 1 p) (memberCount c) now of
                    None \<Rightarrow> apply_tally v 1 q
                  | Some st \<Rightarrow> (apply_tally v 1 q)\<lparr>status := st\<rparr>"
  have id: "\<And>q. proposal_id (?f q) = proposal_id q"
    and tot: "\<And>q. totalVotes (?f q) = totalVotes q + 1"
    by (simp_all add: apply_tally_id apply_tally_fields split: option.splits)
  have fnd: "find_proposal ?s' k \<noteq> None" if "find_proposal s k \<noteq> None" for k
    using that record_vote_found [OF vote(1) vote(4)] record_vote_other [OF vote(4), of k]
    by (cases "k = vr_proposalId r") auto
  have vs: "votes ?s' = votes s @ [\<lparr>proposalId = vr_proposalId r, userId = vr_user r,
                                     vote = v, weight = 1\<rparr>]"
    using record_vote_store(1) [OF vote(4)] .
  have ps: "proposals ?s' = map (\<lambda>q. if proposal_id q = vr_proposalId r then ?f q else q)
                              (proposals s)"
    using record_vote_store(4) [OF vote(4)] .
  have von: "votes_on ?s' k = votes_on s k @ (if k = vr_proposalId r
               then [\<lparr>proposalId = vr_proposalId r, userId = vr_user r, vote = v, weight = 1\<rparr>]
               else [])" for k
    by (auto simp: votes_on_def vs)
  have 1: "list_all (\<lambda>v. weight v = 1 \<and> find_proposal ?s' (proposalId v) \<noteq> None) (votes ?s')"
    using assms fnd vote(1) by (auto simp: counted_def vs list_all_iff)
  have 2: "list_all (\<lambda>p. totalVotes p = int (length (votes_on ?s' (proposal_id p)))) (proposals ?s')"
    using assms id tot by (auto simp: counted_def ps von list_all_iff)
  from 1 2 show ?thesis by (simp add: counted_def)
qed

lemma run_counted: "counted s \<Longrightarrow> counted (run s ops)"
  by (induction ops arbitrary: s) (simp_all add: exec_counted)

lemma counted_initial: "counted (initial cs ms)"
  by (simp add: counted_def initial_def)

lemma exec_not_vote:
  assumes "\<not> is_vote op" "find_proposal s k = Some p"
  shows "find_proposal (exec s op) k = Some p"
proof (cases op)
  case (CreateProposal r new_id now)
  with assms(2) createProposal_cases [of s r new_id now] show ?thesis
    by (auto simp: find_proposal_append)
next
  case (CastVote r now1 now2)
  with assms(1) show ?thesis by simp
next
  case (GetProposals r now)
  with assms(2) show ?thesis by (simp add: getProposals_store)
next
  case (Environment cs ms)
  with assms(2) show ?thesis by simp
qed

lemma castVote_tally:
  assumes "fst (castVote s r now1 now2) = Inr resp"
  shows "\<exists>p p'. find_proposal s (vr_proposalId r) = Some p
     \<and> find_proposal (snd (castVote s r now1 now2)) (vr_proposalId r) = Some p'
     \<and> totalVotes p' = totalVotes p + 1
     \<and> yesVotes p' = (if cast_vote resp then yesVotes p + 1 else yesVotes p)
     \<and> noVotes p' = (if cast_vote resp then noVotes p else noVotes p + 1)
     \<and> cast_weight resp = 1
     \<and> votes (snd (castVote s r now1 now2))
         = votes s @ [\<lparr>proposalId = vr_proposalId r, userId = vr_user r,
                        vote = cast_vote resp, weight = 1\<rparr>]"
proof -
  obtain s' where c: "castVote s r now1 now2 = (Inr resp, s')"
    using assms by (cases "castVote s r now1 now2") simp
  from castVote_success [OF c] obtain p c0 v where
    p: "find_proposal s (vr_proposalId r) = Some p" and rv: "record_vote s r p c0 v now2 = (resp, s')"
    by blast
  from record_vote_found [OF p rv] record_vote_store(1) [OF rv] record_vote_response(1,2) [OF rv] p c
  show ?thesis by (simp add: apply_tally_fields)
qed

lemma percent_of_ten:
  "\<not> js_ge (percentage 1 10) 50" "\<not> js_ge (percentage 2 10) 50"
  "\<not> js_ge (percentage 3 10) 50" "\<not> js_ge (percentage 4 10) 50"
  "js_ge (percentage 5 10) 50" "js_ge (percentage 5 5) 60"
  by code_simp+

text \<open>One more yes in a community of ten with quorum 50 and threshold 60, after \<open>n\<close> yes
  votes and no other vote.\<close>

lemma yes_vote_of_ten:
  assumes c: "castVote s r a b = (Inr x, s')"
    and v: "vr_vote r = JBool True" and k: "vr_proposalId r = k"
    and f: "find_proposal s k = Some q"
    and cm: "communities s (communityId q) = Some c" "memberCount c = 10"
    and cfg: "requiredQuorum q = 50" "passingThreshold q = 60"
    and tally: "yesVotes q = n" "noVotes q = 0" "totalVotes q = n"
    and n: "n \<in> {0, 1, 2, 3, 4}"
  shows "\<exists>q'. find_proposal s' k = Some q' \<and> communities s' (communityId q') = Some c
           \<and> requiredQuorum q' = 50 \<and> passingThreshold q' = 60
           \<and> yesVotes q' = n + 1 \<and> noVotes q' = 0 \<and> totalVotes q' = n + 1
           \<and> votingEndsAt q' = votingEndsAt q
           \<and> status q' = (if n = 4 then PASSED else ACTIVE)
           \<and> \<not> votingEndsAt q < a"
proof -
  from castVote_success [OF c] k f v obtain c0 where
    a: "status q = ACTIVE" and w: "\<not> votingEndsAt q < a"
    and c0: "communities s (communityId q) = Some c0"
    and rv: "record_vote s r q c0 True b = (x, s')"
    by auto
  from c0 cm have cc: "c0 = c" by simp
  let ?u = "apply_tally True 1 q"
  have rc: "resolution_check ?u 10 b = (if n = 4 then Some PASSED else None)"
    using n cfg tally percent_of_ten
    by (auto simp: resolution_check_def participationRate_def yesPercentage_def
                   apply_tally_fields)
  from record_vote_found [of s r q, OF _ rv] k f
  have "find_proposal s' k
        = Some (?u\<lparr>status := (case resolution_check ?u (memberCount c0) b of
                                 None \<Rightarrow> status q | Some st \<Rightarrow> st)\<rparr>)"
    by simp
  with rc cc cm(2) a
  have fq: "find_proposal s' k = Some (?u\<lparr>status := (if n = 4 then PASSED else ACTIVE)\<rparr>)"
    by simp
  have "communities s' = communities s"
    using record_vote_store(2) [OF rv] .
  with cm(1) fq cfg tally w show ?thesis
    by (simp add: apply_tally_fields)
qed

text \<open>Runs of overlapping requests.\<close>

lemma run_steps_Nil [simp]: "run_steps s [] = s"
  by (simp add: run_steps_def)

lemma run_steps_Cons [simp]: "run_steps s (st # steps) = run_steps (exec_step s st) steps"
  by (simp add: run_steps_def)

text \<open>No write of a vote, whatever its guards have read, makes a proposal \<open>ACTIVE\<close>
  again.\<close>

lemma commit_vote_keeps_terminal:
  assumes "find_proposal s k = Some p" "status p \<noteq> ACTIVE"
  shows "\<exists>p'. find_proposal (snd (commit_vote s a now)) k = Some p' \<and> status p' \<noteq> ACTIVE"
proof (cases "commit_vote s a now")
  case (Pair res s')
  show ?thesis
  proof (cases res)
    case (Inl e)
    with Pair commit_vote_failure [of s a now e s'] assms show ?thesis by simp
  next
    case (Inr resp)
    with Pair obtain stored v where
      st: "find_proposal s (vr_proposalId (adm_request a)) = Some stored"
      and rv: "record_vote s (adm_request a) stored (adm_community a) v now = (resp, s')"
      by (auto simp: commit_vote_def Let_def apfst_def map_prod_def
               split: js_value.splits option.splits prod.splits)
    show ?thesis
    proof (cases "k = vr_proposalId (adm_request a)")
      case True
      with st assms have "stored = p" by simp
      with record_vote_found [OF st rv] True assms(2) Pair
        resolution_check_terminal [of "apply_tally v 1 p" "memberCount (adm_community a)" now]
      show ?thesis
        by (auto simp: apply_tally_fields split: option.splits)
    next
      case False
      with record_vote_other [OF rv, of k] assms Pair show ?thesis by simp
    qed
  qed
qed

lemma exec_step_keeps_terminal:
  assumes "find_proposal s k = Some p" "status p \<noteq> ACTIVE"
  shows "\<exists>p'. find_proposal (exec_step s st) k = Some p' \<and> status p' \<noteq> ACTIVE"
proof (cases st)
  case (Whole op)
  with exec_forward [OF assms(1), of op] assms(2) show ?thesis by auto
next
  case (Writes a now)
  with commit_vote_keeps_terminal [OF assms, of a now] show ?thesis by simp
qed

lemma run_steps_keeps_terminal:
  assumes "find_proposal s k = Some p" "status p \<noteq> ACTIVE"
  shows "\<exists>p'. find_proposal (run_steps s steps) k = Some p' \<and> status p' \<noteq> ACTIVE"
  using assms
proof (induction steps arbitrary: s p)
  case Nil
  then show ?case by simp
next
  case (Cons st steps)
  from exec_step_keeps_terminal [OF Cons.prems, of st] obtain q where
    "find_proposal (exec_step s st) k = Some q" "status q \<noteq> ACTIVE" by blast
  from Cons.IH [OF this] show ?case by simp
qed

section \<open>Rounding of the percentages\<close>

text \<open>
  How far the double percentage of the program is from the exact one of the specification.
  Each of the two operations rounds to 53 significant bits, a relative error of at most
  \<open>2 powi - 53\<close>.
\<close>

lemma two_powi_nat: "0 \<le> k \<Longrightarrow> (of_int (2 ^ nat k) :: rat) = 2 powi k"
  by (simp add: power_int_def)

lemma bitlen_powi:
  assumes "0 < n"
  shows "(2 powi (bitlen n - 1) :: rat) \<le> of_int n" and "(of_int n :: rat) < 2 powi (bitlen n)"
proof -
  from assms have b: "1 \<le> bitlen n" by (simp add: bitlen_alt_def)
  from bitlen_bounds [OF assms] have 1: "2 ^ nat (bitlen n - 1) \<le> n" and 2: "n < 2 ^ nat (bitlen n)"
    by auto
  from 1 have "(2 :: rat) ^ nat (bitlen n - 1) \<le> of_int n"
    using of_int_le_iff [of "2 ^ nat (bitlen n - 1)" n, where ?'a = rat] by simp
  with b show "(2 powi (bitlen n - 1) :: rat) \<le> of_int n" by (simp add: power_int_def)
  from 2 have "(of_int n :: rat) < 2 ^ nat (bitlen n)"
    using of_int_less_iff [of n "2 ^ nat (bitlen n)", where ?'a = rat] by simp
  with b show "(of_int n :: rat) < 2 powi (bitlen n)" by (simp add: power_int_def)
qed

lemma floor_log2_test:
  assumes "0 < n" "0 < d"
  shows "(if 0 \<le> k then d * 2 ^ nat k \<le> n else d \<le> n * 2 ^ nat (- k))
         \<longleftrightarrow> (2 powi k :: rat) \<le> of_int n / of_int d"
proof (cases "0 \<le> k")
  case True
  have "(d * 2 ^ nat k \<le> n) \<longleftrightarrow> ((of_int (d * 2 ^ nat k) :: rat) \<le> of_int n)"
    by (simp only: of_int_le_iff)
  also have "\<dots> \<longleftrightarrow> (of_int d * 2 powi k :: rat) \<le> of_int n"
    using True by (simp add: power_int_def)
  also have "\<dots> \<longleftrightarrow> (2 powi k :: rat) \<le> of_int n / of_int d"
    using assms by (simp add: pos_le_divide_eq mult.commute)
  finally show ?thesis using True by simp
next
  case False
  have "(d \<le> n * 2 ^ nat (- k)) \<longleftrightarrow> ((of_int d :: rat) \<le> of_int (n * 2 ^ nat (- k)))"
    by (simp only: of_int_le_iff)
  also have "\<dots> \<longleftrightarrow> (of_int d :: rat) \<le> of_int n * 2 powi (- k)"
    using False by (simp add: power_int_def)
  also have "\<dots> \<longleftrightarrow> (of_int d * 2 powi k :: rat) \<le> of_int n"
    by (simp add: power_int_minus field_simps)
  also have "\<dots> \<longleftrightarrow> (2 powi k :: rat) \<le> of_int n / of_int d"
    using assms by (simp add: pos_le_divide_eq mult.commute)
  finally show ?thesis using False by simp
qed

lemma floor_log2_bounds:
  assumes "0 < n" "0 < d"
  shows "(2 powi (floor_log2 n d) :: rat) \<le> of_int n / of_int d"
    and "(of_int n / of_int d :: rat) < 2 powi (floor_log2 n d + 1)"
proof -
  let ?x = "of_int n / of_int d :: rat"
  let ?k = "bitlen n - bitlen d"
  have dpos: "(0 :: rat) < of_int d" and npos: "(0 :: rat) < of_int n" using assms by simp_all
  have up: "?x < 2 powi (?k + 1)"
  proof -
    have "?x < 2 powi (bitlen n) / 2 powi (bitlen d - 1)"
      using bitlen_powi(2) [OF assms(1)] bitlen_powi(1) [OF assms(2)] dpos npos
      by (intro frac_less) auto
    also have "\<dots> = 2 powi (?k + 1)"
      by (simp add: power_int_diff power_int_add)
    finally show ?thesis .
  qed
  have lo: "2 powi (?k - 1) \<le> ?x"
  proof -
    have "(2 powi (?k - 1) :: rat) = 2 powi (bitlen n - 1) / 2 powi (bitlen d)"
      by (simp add: power_int_diff power_int_add)
    also have "\<dots> \<le> ?x"
      using bitlen_powi(1) [OF assms(1)] bitlen_powi(2) [OF assms(2)] dpos npos
      by (intro frac_le) auto
    finally show ?thesis .
  qed
  show "(2 powi (floor_log2 n d) :: rat) \<le> ?x"
    using floor_log2_test [OF assms, of ?k] lo
    by (auto simp: floor_log2_def Let_def)
  show "?x < 2 powi (floor_log2 n d + 1)"
    using floor_log2_test [OF assms, of ?k] up
    by (auto simp: floor_log2_def Let_def)
qed


lemma round_half:
  fixes N D :: int
  assumes "0 < D"
  defines "m \<equiv> (if 2 * (N mod D) < D then N div D
                 else if D < 2 * (N mod D) then N div D + 1
                 else if even (N div D) then N div D else N div D + 1)"
  shows "\<bar>(of_int m :: rat) - of_int N / of_int D\<bar> \<le> 1 / 2" and "N div D \<le> m"
proof -
  let ?q = "N div D" and ?r = "N mod D"
  have r: "0 \<le> ?r" "?r < D" using assms(1) by simp_all
  have D: "(0 :: rat) < of_int D" using assms(1) by simp
  have "N = ?q * D + ?r" by simp
  then have "(of_int N :: rat) = of_int ?q * of_int D + of_int ?r"
    by (metis of_int_add of_int_mult)
  then have nd: "(of_int N / of_int D :: rat) = of_int ?q + of_int ?r / of_int D"
    using D by (simp add: field_simps)
  have f0: "(0 :: rat) \<le> of_int ?r / of_int D" using r D by simp
  have f1: "(of_int ?r / of_int D :: rat) < 1" using r D by simp
  have half: "(2 * ?r < D) \<longleftrightarrow> (of_int ?r / of_int D :: rat) < 1 / 2"
  proof -
    have "(2 * ?r < D) \<longleftrightarrow> ((of_int (2 * ?r) :: rat) < of_int D)"
      by (simp only: of_int_less_iff)
    also have "\<dots> \<longleftrightarrow> (of_int ?r / of_int D :: rat) < 1 / 2"
      using D by (simp add: field_simps)
    finally show ?thesis .
  qed
  have half': "(D < 2 * ?r) \<longleftrightarrow> (1 / 2 :: rat) < of_int ?r / of_int D"
  proof -
    have "(D < 2 * ?r) \<longleftrightarrow> ((of_int D :: rat) < of_int (2 * ?r))"
      by (simp only: of_int_less_iff)
    also have "\<dots> \<longleftrightarrow> (1 / 2 :: rat) < of_int ?r / of_int D"
      using D by (simp add: field_simps)
    finally show ?thesis .
  qed
  show "\<bar>(of_int m :: rat) - of_int N / of_int D\<bar> \<le> 1 / 2"
  proof (cases "2 * ?r < D")
    case True
    then have "m = ?q" by (simp add: m_def)
    with True half nd f0 show ?thesis by simp
  next
    case False
    show ?thesis
    proof (cases "D < 2 * ?r")
      case True
      with False have "m = ?q + 1" by (simp add: m_def)
      with True half' nd f1 show ?thesis by simp
    next
      case F2: False
      with False have eq: "(of_int ?r / of_int D :: rat) = 1 / 2"
        using half half' by auto
      from False F2 have "m = ?q \<or> m = ?q + 1" by (simp add: m_def)
      with eq nd show ?thesis by auto
    qed
  qed
  show "N div D \<le> m" by (simp add: m_def)
qed

lemma round_pos_error:
  assumes "0 < n" "0 < d" "round_pos n d = (m, e)"
  shows "\<bar>dval m e - of_int n / of_int d\<bar> \<le> 2 powi (e - 1)"
    and "(2 powi (e + 52) :: rat) \<le> of_int n / of_int d"
    and "0 < m"
proof -
  let ?x = "of_int n / of_int d :: rat"
  define N where "N = (if 0 \<le> e then n else n * 2 ^ nat (- e))"
  define D where "D = (if 0 \<le> e then d * 2 ^ nat e else d)"
  from assms(3) have e: "e = floor_log2 n d - 52"
    by (auto simp: round_pos_def Let_def)
  from assms(3) have m: "m = (if 2 * (N mod D) < D then N div D
                 else if D < 2 * (N mod D) then N div D + 1
                 else if even (N div D) then N div D else N div D + 1)"
    unfolding N_def D_def e by (simp add: round_pos_def Let_def)
  have D: "0 < D" using assms(2) by (simp add: D_def)
  have d0: "(of_int d :: rat) \<noteq> 0" using assms(2) by simp
  have ND: "(of_int N / of_int D :: rat) = ?x * 2 powi (- e)"
  proof (cases "0 \<le> e")
    case True
    then show ?thesis using d0 by (simp add: N_def D_def power_int_def power_inverse divide_simps)
  next
    case False
    then show ?thesis using d0 by (simp add: N_def D_def power_int_def)
  qed
  from floor_log2_bounds(1) [OF assms(1,2)] e
  show lo: "(2 powi (e + 52) :: rat) \<le> ?x" by simp
  from round_half [OF D, of N] m
  have h: "\<bar>(of_int m :: rat) - of_int N / of_int D\<bar> \<le> 1 / 2" and q: "N div D \<le> m"
    by simp_all
  have "(of_int m - ?x * 2 powi (- e)) * 2 powi e = dval m e - ?x * (2 powi (- e) * 2 powi e)"
    by (simp add: dval_def algebra_simps)
  also have "(2 powi (- e) * 2 powi e :: rat) = 1"
    by (simp add: power_int_minus)
  finally have "dval m e - ?x = (of_int m - ?x * 2 powi (- e)) * 2 powi e"
    by simp
  then have "\<bar>dval m e - ?x\<bar> = \<bar>of_int m - ?x * 2 powi (- e)\<bar> * 2 powi e"
    by (simp add: abs_mult)
  also have "\<dots> \<le> (1 / 2) * 2 powi e"
    using h unfolding ND by (intro mult_right_mono) auto
  also have "\<dots> = 2 powi (e - 1)"
    by (simp add: power_int_diff)
  finally show "\<bar>dval m e - ?x\<bar> \<le> 2 powi (e - 1)" .
  have "(2 powi 52 :: rat) = 2 powi (e + 52) * 2 powi (- e)"
    by (simp add: power_int_add power_int_minus)
  also have "\<dots> \<le> ?x * 2 powi (- e)"
    using lo by (intro mult_right_mono) auto
  finally have big: "(2 powi 52 :: rat) \<le> of_int N / of_int D" unfolding ND .
  have "(1 :: rat) \<le> 2 powi 52" by (simp add: power_int_def)
  with big have "(1 :: rat) \<le> of_int N / of_int D" by simp
  then have "(of_int D :: rat) \<le> of_int N"
    using D by (simp add: pos_le_divide_eq)
  then have "D \<le> N" by (simp only: of_int_le_iff)
  then have "0 < N div D"
    using D by (simp add: pos_imp_zdiv_pos_iff)
  with q show "0 < m" by simp
qed


lemma js_ge_dval: "js_ge (Fin m e) q \<longleftrightarrow> of_int q \<le> dval m e"
proof (cases "0 \<le> e")
  case True
  have "(q \<le> m * 2 ^ nat e) \<longleftrightarrow> ((of_int q :: rat) \<le> of_int (m * 2 ^ nat e))"
    by (simp only: of_int_le_iff)
  with True show ?thesis by (simp add: js_ge_def dval_def power_int_def)
next
  case False
  have "(q * 2 ^ nat (- e) \<le> m) \<longleftrightarrow> ((of_int (q * 2 ^ nat (- e)) :: rat) \<le> of_int m)"
    by (simp only: of_int_le_iff)
  with False show ?thesis
    by (simp add: js_ge_def dval_def power_int_def power_inverse field_simps)
qed

text \<open>A positive fraction is rounded with a relative error of at most \<open>2 powi - 53\<close>.\<close>

lemma round_frac_error:
  assumes "0 < n" "0 < d"
  shows "\<exists>m e. round_frac n d = Fin m e \<and> 0 < m
           \<and> \<bar>dval m e - of_int n / of_int d\<bar> \<le> (of_int n / of_int d) * 2 powi (- 53)"
proof -
  obtain m e where r: "round_pos n d = (m, e)" by (cases "round_pos n d")
  let ?x = "of_int n / of_int d :: rat"
  from round_pos_error [OF assms r]
  have 1: "\<bar>dval m e - ?x\<bar> \<le> 2 powi (e - 1)" and 2: "(2 powi (e + 52) :: rat) \<le> ?x"
    and 3: "0 < m" by simp_all
  have "(2 powi (e - 1) :: rat) = 2 powi ((e + 52) + (- 53))" by simp
  also have "\<dots> = 2 powi (e + 52) * 2 powi (- 53)"
    by (rule power_int_add) simp
  also have "\<dots> \<le> ?x * 2 powi (- 53)"
    using 2 by (intro mult_right_mono) auto
  finally have "\<bar>dval m e - ?x\<bar> \<le> ?x * 2 powi (- 53)" using 1 by simp
  moreover have "round_frac n d = Fin m e"
    using assms r by (simp add: round_frac_def)
  ultimately show ?thesis using 3 by blast
qed


lemma js_mul_error:
  assumes "0 < m" "0 < c"
  shows "\<exists>m' e'. js_mul (Fin m e) c = Fin m' e'
           \<and> \<bar>dval m' e' - of_int c * dval m e\<bar> \<le> of_int c * dval m e * 2 powi (- 53)"
proof (cases "0 \<le> e")
  case True
  have pos: "0 < m * c * 2 ^ nat e" using assms by simp
  have v: "(of_int (m * c * 2 ^ nat e) / of_int 1 :: rat) = of_int c * dval m e"
    using True by (simp add: dval_def power_int_def)
  from round_frac_error [OF pos, of 1] obtain m' e' where
    "round_frac (m * c * 2 ^ nat e) 1 = Fin m' e'"
    "\<bar>dval m' e' - of_int (m * c * 2 ^ nat e) / of_int 1\<bar>
       \<le> (of_int (m * c * 2 ^ nat e) / of_int 1) * 2 powi (- 53)"
    by auto
  then show ?thesis using True unfolding v by (simp add: js_mul_def)
next
  case False
  have pos: "0 < m * c" "(0 :: int) < 2 ^ nat (- e)" using assms by simp_all
  have v: "(of_int (m * c) / of_int (2 ^ nat (- e)) :: rat) = of_int c * dval m e"
    using False by (simp add: dval_def power_int_def field_simps)
  from round_frac_error [OF pos] obtain m' e' where
    "round_frac (m * c) (2 ^ nat (- e)) = Fin m' e'"
    "\<bar>dval m' e' - of_int (m * c) / of_int (2 ^ nat (- e))\<bar>
       \<le> (of_int (m * c) / of_int (2 ^ nat (- e))) * 2 powi (- 53)"
    by auto
  then show ?thesis using False unfolding v by (simp add: js_mul_def)
qed

lemma two_roundings:
  fixes x v1 v2 eps :: rat
  assumes "0 < x" "0 \<le> eps" "eps \<le> 1"
    and "\<bar>v1 - x\<bar> \<le> x * eps" "\<bar>v2 - 100 * v1\<bar> \<le> 100 * v1 * eps"
  shows "\<bar>v2 - x * 100\<bar> \<le> 3 * (x * 100) * eps"
proof -
  define y where "y = x * eps"
  define z where "z = v1 * eps"
  have "x * eps \<le> x * 1" using assms(1,3) by (intro mult_left_mono) auto
  then have y: "y \<le> x" by (simp add: y_def)
  from assms(4) have 1: "\<bar>v1 - x\<bar> \<le> y" by (simp add: y_def)
  then have "v1 \<le> 2 * x" using y by arith
  then have "v1 * eps \<le> (2 * x) * eps" using assms(2) by (rule mult_right_mono)
  then have z: "z \<le> 2 * y" by (simp add: y_def z_def)
  from assms(5) have 2: "\<bar>v2 - 100 * v1\<bar> \<le> 100 * z" by (simp add: z_def)
  from 1 2 z have "\<bar>v2 - x * 100\<bar> \<le> 300 * y" by arith
  then show ?thesis by (simp add: y_def)
qed

text \<open>The double percentage of a positive part is within three relative roundings of the
  exact percentage.\<close>

lemma percentage_error:
  assumes "0 < a" "0 < b"
  shows "\<exists>m e. percentage a b = Fin m e
           \<and> \<bar>dval m e - of_int a / of_int b * 100\<bar> \<le> 3 * (of_int a / of_int b * 100) * 2 powi (- 53)"
proof -
  let ?x = "of_int a / of_int b :: rat"
  let ?eps = "2 powi (- 53) :: rat"
  have x: "0 < ?x" using assms by simp
  have eps: "0 \<le> ?eps" "?eps \<le> 1" by (simp_all add: power_int_def power_le_one)
  from round_frac_error [OF assms] obtain m1 e1 where
    d: "round_frac a b = Fin m1 e1" and m1: "0 < m1"
    and e1: "\<bar>dval m1 e1 - ?x\<bar> \<le> ?x * ?eps"
    by auto
  from js_mul_error [OF m1, of 100 e1] obtain m2 e2 where
    p: "js_mul (Fin m1 e1) 100 = Fin m2 e2"
    and e2: "\<bar>dval m2 e2 - 100 * dval m1 e1\<bar> \<le> 100 * dval m1 e1 * ?eps"
    by auto
  have pc: "percentage a b = Fin m2 e2"
    using assms d p by (simp add: percentage_def js_div_def)
  from two_roundings [OF x eps e1 e2] pc show ?thesis by blast
qed

text \<open>
  Away from the bound itself the program and the specification agree: with a part of 32
  bits, the rounding of the double is smaller than the distance of a fraction of
  denominator \<open>whole\<close> to an integer it is not equal to.
\<close>

lemma off_boundary_gap:
  fixes part whole q :: int
  assumes "0 < whole" "100 * part \<noteq> q * whole"
  shows "(1 :: rat) / of_int whole \<le> \<bar>of_int part / of_int whole * 100 - of_int q\<bar>"
proof -
  define n where "n = 100 * part - q * whole"
  have w: "(0 :: rat) < of_int whole" using assms(1) by simp
  have "(of_int n :: rat) = 100 * of_int part - of_int q * of_int whole"
    by (simp add: n_def)
  then have "(of_int part / of_int whole * 100 - of_int q :: rat) = of_int n / of_int whole"
    using w by (simp add: field_simps)
  then have "\<bar>of_int part / of_int whole * 100 - of_int q :: rat\<bar> = \<bar>of_int n\<bar> / of_int whole"
    using w by (simp only: abs_divide abs_of_pos)
  moreover have "1 \<le> \<bar>n\<bar>" using assms(2) by (simp add: n_def)
  then have "(1 :: rat) \<le> \<bar>of_int n\<bar>"
    by (metis of_int_1 of_int_le_iff of_int_abs)
  then have "(1 :: rat) / of_int whole \<le> \<bar>of_int n\<bar> / of_int whole"
    using w by (simp only: divide_right_mono less_imp_le)
  ultimately show ?thesis by simp
qed

lemma same_side_off_boundary:
  assumes "0 \<le> part" "part < 2 ^ 31" "0 < whole" "100 * part \<noteq> q * whole"
  shows "same_side part whole q"
proof (cases "part = 0")
  case True
  have "percentage 0 whole = Fin 0 0"
    using assms(3) by (simp add: percentage_def js_div_def round_frac_def js_mul_def)
  then show ?thesis
    using True assms(3,4) by (simp add: same_side_def spec_percentage_def js_ge_def)
next
  case False
  with assms(1) have a: "0 < part" by simp
  define X :: rat where "X = of_int part / of_int whole * 100"
  define eps :: rat where "eps = 2 powi (- 53)"
  have w: "(0 :: rat) < of_int whole" using assms(3) by simp
  from percentage_error [OF a assms(3)] obtain m e where
    pc: "percentage part whole = Fin m e"
    and err: "\<bar>dval m e - X\<bar> \<le> 3 * X * eps"
    unfolding X_def eps_def by auto
  have "(of_int part :: rat) < of_int (2 ^ 31)"
    using assms(2) by (simp only: of_int_less_iff)
  then have t: "(300 * of_int part :: rat) * eps < 1"
    by (simp add: eps_def power_int_def field_simps)
  have "3 * X * eps = (300 * of_int part * eps) / of_int whole"
    by (simp add: X_def)
  also have "\<dots> < 1 / of_int whole"
    using t w by (rule divide_strict_right_mono)
  finally have small: "3 * X * eps < 1 / of_int whole" .
  from off_boundary_gap [OF assms(3,4)]
  have gap: "1 / of_int whole \<le> \<bar>X - of_int q\<bar>" by (simp only: X_def)
  from err small gap have "(of_int q \<le> dval m e) \<longleftrightarrow> (of_int q \<le> X)"
    by arith
  then show ?thesis
    using pc assms(3) by (simp add: same_side_def spec_percentage_def js_ge_dval X_def)
qed

section \<open>The claims\<close>

text \<open>
  C7, as the code has it. A vote that arrives after \<open>votingEndsAt\<close> of the proposal it names
  always fails and writes nothing. The error is \<open>VotingPeriodEnded\<close> (VotingWindowClosed)
  when the request passes validation, names the proposal under its own community and the
  stored status is still \<open>ACTIVE\<close>; the guards on validation, on the proposal and on its
  status come before the guard on the window.
\<close>

theorem castVote_after_window:
  assumes "find_proposal s (vr_proposalId r) = Some p" and "votingEndsAt p < now1"
  shows "(\<exists>e. castVote s r now1 now2 = (Inl e, s))
       \<and> (vote_validators r = [] \<and> communityId p = vr_communityId r \<and> status p = ACTIVE
            \<longrightarrow> castVote s r now1 now2 = (Inl VotingPeriodEnded, s))"
  using assms castVote_refused [of s r p now1 now2] castVote_guards(2) [of r s p now1 now2]
  by blast

text \<open>The theorem on a vote that comes an hour after the end of the window of the open
  proposal.\<close>

theorem castVote_after_window_witness:
  "find_proposal (demo_store 10 50 60) (vr_proposalId (demo_vote ''u1'' (JBool True)))
     = Some \<lparr>proposal_id = demo_proposal, communityId = demo_community,
             title = ''Fund the library'',
             description = ''Spend the treasury on a public library'', ptype = ''FUNDING'',
             votingStartsAt = 1000, votingEndsAt = 86401000,
             requiredQuorum = 50, passingThreshold = 60, gasRequired = False,
             status = ACTIVE, yesVotes = 0, noVotes = 0, totalVotes = 0\<rparr>
   \<and> (86401000 :: int) < 90000000
   \<and> castVote (demo_store 10 50 60) (demo_vote ''u1'' (JBool True)) 90000000 90000001
       = (Inl VotingPeriodEnded, demo_store 10 50 60)"
proof -
  let ?p = "\<lparr>proposal_id = demo_proposal, communityId = demo_community,
             title = ''Fund the library'',
             description = ''Spend the treasury on a public library'', ptype = ''FUNDING'',
             votingStartsAt = 1000, votingEndsAt = 86401000,
             requiredQuorum = 50, passingThreshold = 60, gasRequired = False,
             status = ACTIVE, yesVotes = 0, noVotes = 0, totalVotes = 0\<rparr>"
  have f: "find_proposal (demo_store 10 50 60) (vr_proposalId (demo_vote ''u1'' (JBool True)))
           = Some ?p"
    by code_simp
  have v: "vote_validators (demo_vote ''u1'' (JBool True)) = []"
    by code_simp
  have c: "communityId ?p = vr_communityId (demo_vote ''u1'' (JBool True))"
    by (simp add: demo_vote_def)
  show ?thesis
    using castVote_after_window [OF f, of 90000000 90000001] f v c by simp
qed

text \<open>
  The claim as it was stated fails on a proposal that has already passed: a vote after the
  end of its window is refused with \<open>ProposalNotActive\<close>, not with \<open>VotingPeriodEnded\<close>.
\<close>

theorem castVote_after_window_counterexample:
  "map_option status (find_proposal demo_passed demo_proposal) = Some PASSED
   \<and> map_option votingEndsAt (find_proposal demo_passed demo_proposal) = Some 86401000
   \<and> (86401000 :: int) < 90000000
   \<and> fst (castVote demo_passed (demo_vote ''u2'' (JBool True)) 90000000 90000001)
       = Inl ProposalNotActive
   \<and> fst (castVote demo_passed (demo_vote ''u2'' (JBool True)) 90000000 90000001)
       \<noteq> Inl VotingPeriodEnded"
  by code_simp







text \<open>
  C5, as the code has it. When the requests are handled one after the other, the status of
  a proposal only moves forward: it stays, or leaves \<open>ACTIVE\<close> for \<open>PASSED\<close> or \<open>FAILED\<close>,
  and a proposal that is no longer \<open>ACTIVE\<close> keeps its whole row, status and tallies, for
  good. Also when requests overlap, a proposal that has left \<open>ACTIVE\<close> never is \<open>ACTIVE\<close>
  again. A vote whose guards run on a proposal that is no longer \<open>ACTIVE\<close> always fails
  and writes nothing; the error is \<open>ProposalNotActive\<close> when the request passes validation
  and names the proposal under its own community, the guards on validation and on the
  proposal coming first.
\<close>

theorem status_forward_only:
  assumes "find_proposal s k = Some p"
  shows "(\<exists>p'. find_proposal (run s ops) k = Some p' \<and> forward (status p) (status p')
              \<and> (status p \<noteq> ACTIVE \<longrightarrow> p' = p))
       \<and> (status p \<noteq> ACTIVE
            \<longrightarrow> (\<exists>p'. find_proposal (run_steps s steps) k = Some p' \<and> status p' \<noteq> ACTIVE))
       \<and> (status p \<noteq> ACTIVE \<and> vr_proposalId r = k
            \<longrightarrow> (\<exists>e. castVote s r now1 now2 = (Inl e, s))
              \<and> (vote_validators r = [] \<and> communityId p = vr_communityId r
                   \<longrightarrow> castVote s r now1 now2 = (Inl ProposalNotActive, s)))"
proof (intro conjI impI)
  from run_forward [OF assms, of ops]
  show "\<exists>p'. find_proposal (run s ops) k = Some p' \<and> forward (status p) (status p')
              \<and> (status p \<noteq> ACTIVE \<longrightarrow> p' = p)"
    by blast
next
  assume "status p \<noteq> ACTIVE"
  with assms show "\<exists>p'. find_proposal (run_steps s steps) k = Some p' \<and> status p' \<noteq> ACTIVE"
    by (rule run_steps_keeps_terminal)
next
  assume "status p \<noteq> ACTIVE \<and> vr_proposalId r = k"
  with assms castVote_refused [of s r p now1 now2]
  show "\<exists>e. castVote s r now1 now2 = (Inl e, s)" by blast
next
  assume "status p \<noteq> ACTIVE \<and> vr_proposalId r = k"
    and "vote_validators r = [] \<and> communityId p = vr_communityId r"
  with assms castVote_guards(1) [of r s p now1 now2]
  show "castVote s r now1 now2 = (Inl ProposalNotActive, s)" by blast
qed

text \<open>The theorem on the passed proposal: two more votes and a read leave its row as it
  is, the late writes of an overlapping vote do not make it \<open>ACTIVE\<close>, and a well-formed
  vote is refused with \<open>ProposalNotActive\<close>.\<close>

theorem status_forward_only_witness:
  "find_proposal demo_passed demo_proposal = Some \<lparr>proposal_id = demo_proposal, communityId = demo_community,
             title = ''Fund the library'',
             description = ''Spend the treasury on a public library'', ptype = ''FUNDING'',
             votingStartsAt = 1000, votingEndsAt = 86401000,
             requiredQuorum = 50, passingThreshold = 60, gasRequired = False,
             status = PASSED, yesVotes = 1, noVotes = 0, totalVotes = 1\<rparr>
   \<and> find_proposal (run demo_passed
        [CastVote (demo_vote ''u2'' (JBool False)) 3000 3001,
         GetProposals (demo_list ''u2'') 90000000,
         CastVote (demo_vote ''u3'' (JBool False)) 90000000 90000001]) demo_proposal
     = find_proposal demo_passed demo_proposal
   \<and> (\<exists>p'. find_proposal (run_steps demo_passed
               [Writes \<lparr>adm_request = demo_vote ''u2'' (JBool False),
        adm_community = \<lparr>memberCount = 2, votingPower = EQUAL\<rparr>\<rparr> 3001,
                Whole (GetProposals (demo_list ''u2'') 4000)]) demo_proposal = Some p'
           \<and> status p' \<noteq> ACTIVE)
   \<and> castVote demo_passed (demo_vote ''u2'' (JBool False)) 3000 3001
     = (Inl ProposalNotActive, demo_passed)"
proof -
  let ?p = "\<lparr>proposal_id = demo_proposal, communityId = demo_community,
             title = ''Fund the library'',
             description = ''Spend the treasury on a public library'', ptype = ''FUNDING'',
             votingStartsAt = 1000, votingEndsAt = 86401000,
             requiredQuorum = 50, passingThreshold = 60, gasRequired = False,
             status = PASSED, yesVotes = 1, noVotes = 0, totalVotes = 1\<rparr>"
  let ?r = "demo_vote ''u2'' (JBool False)"
  have f: "find_proposal demo_passed demo_proposal = Some ?p" by code_simp
  have ok: "vote_validators ?r = []" by code_simp
  have ids: "vr_proposalId ?r = demo_proposal" "vr_communityId ?r = demo_community"
    by (simp_all add: demo_vote_def)
  let ?ops = "[CastVote (demo_vote ''u2'' (JBool False)) 3000 3001,
         GetProposals (demo_list ''u2'') 90000000,
         CastVote (demo_vote ''u3'' (JBool False)) 90000000 90000001]"
  let ?steps = "[Writes \<lparr>adm_request = demo_vote ''u2'' (JBool False),
        adm_community = \<lparr>memberCount = 2, votingPower = EQUAL\<rparr>\<rparr> 3001,
                Whole (GetProposals (demo_list ''u2'') 4000)]"
  have st: "status ?p \<noteq> ACTIVE" by simp
  have cm: "communityId ?p = vr_communityId ?r" by (simp add: ids)
  note inst = status_forward_only [OF f, of ?ops ?steps ?r 3000 3001]
  from inst obtain p' where
    "find_proposal (run demo_passed ?ops) demo_proposal = Some p'"
    "status ?p \<noteq> ACTIVE \<longrightarrow> p' = ?p"
    by blast
  with st f have R: "find_proposal (run demo_passed ?ops) demo_proposal
                     = find_proposal demo_passed demo_proposal"
    by (simp del: run_Cons)
  from inst st have T: "\<exists>p'. find_proposal (run_steps demo_passed ?steps) demo_proposal = Some p'
           \<and> status p' \<noteq> ACTIVE"
    by blast
  from inst st ok cm ids(1)
  have C: "castVote demo_passed ?r 3000 3001 = (Inl ProposalNotActive, demo_passed)"
    by blast
  from f R T C show ?thesis by blast
qed

text \<open>
  The claim as it was stated fails twice. A vote with a third choice on the passed proposal
  is refused with \<open>ValidationFailed\<close>, not with \<open>ProposalNotActive\<close>. And when the votes of
  \<open>u1\<close> and \<open>u2\<close> overlap, both admitted while the proposal is \<open>ACTIVE\<close>, the writes of
  \<open>u1\<close> pass the proposal and the writes of \<open>u2\<close> then change the tallies of the passed
  proposal, and turn \<open>PASSED\<close> into \<open>FAILED\<close> when they run after the end of the window.
\<close>

theorem status_forward_only_counterexample:
  "map_option status (find_proposal demo_passed demo_proposal) = Some PASSED
   \<and> fst (castVote demo_passed (demo_vote ''u2'' (JStr ''abstain'')) 3000 3001)
       = Inl (ValidationFailed [F_vote])
   \<and> fst (castVote demo_passed (demo_vote ''u2'' (JStr ''abstain'')) 3000 3001)
       \<noteq> Inl ProposalNotActive
   \<and> admit_vote (demo_store 2 50 60) (demo_vote ''u1'' (JBool True)) 86400990 = Inr \<lparr>adm_request = demo_vote ''u1'' (JBool True),
        adm_community = \<lparr>memberCount = 2, votingPower = EQUAL\<rparr>\<rparr>
   \<and> admit_vote (demo_store 2 50 60) (demo_vote ''u2'' (JBool False)) 86400990 = Inr \<lparr>adm_request = demo_vote ''u2'' (JBool False),
        adm_community = \<lparr>memberCount = 2, votingPower = EQUAL\<rparr>\<rparr>
   \<and> find_proposal (run_steps (demo_store 2 50 60) [Writes \<lparr>adm_request = demo_vote ''u1'' (JBool True),
        adm_community = \<lparr>memberCount = 2, votingPower = EQUAL\<rparr>\<rparr> 86400995]) demo_proposal
       = Some \<lparr>proposal_id = demo_proposal, communityId = demo_community,
             title = ''Fund the library'',
             description = ''Spend the treasury on a public library'', ptype = ''FUNDING'',
             votingStartsAt = 1000, votingEndsAt = 86401000,
             requiredQuorum = 50, passingThreshold = 60, gasRequired = False,
             status = PASSED, yesVotes = 1, noVotes = 0, totalVotes = 1\<rparr>
   \<and> find_proposal (run_steps (demo_store 2 50 60) [Writes \<lparr>adm_request = demo_vote ''u1'' (JBool True),
        adm_community = \<lparr>memberCount = 2, votingPower = EQUAL\<rparr>\<rparr> 86400995, Writes \<lparr>adm_request = demo_vote ''u2'' (JBool False),
        adm_community = \<lparr>memberCount = 2, votingPower = EQUAL\<rparr>\<rparr> 86400999])
        demo_proposal = Some \<lparr>proposal_id = demo_proposal, communityId = demo_community,
             title = ''Fund the library'',
             description = ''Spend the treasury on a public library'', ptype = ''FUNDING'',
             votingStartsAt = 1000, votingEndsAt = 86401000,
             requiredQuorum = 50, passingThreshold = 60, gasRequired = False,
             status = PASSED, yesVotes = 1, noVotes = 1, totalVotes = 2\<rparr>
   \<and> find_proposal (run_steps (demo_store 2 50 60) [Writes \<lparr>adm_request = demo_vote ''u1'' (JBool True),
        adm_community = \<lparr>memberCount = 2, votingPower = EQUAL\<rparr>\<rparr> 86400995, Writes \<lparr>adm_request = demo_vote ''u2'' (JBool False),
        adm_community = \<lparr>memberCount = 2, votingPower = EQUAL\<rparr>\<rparr> 86401001])
        demo_proposal = Some \<lparr>proposal_id = demo_proposal, communityId = demo_community,
             title = ''Fund the library'',
             description = ''Spend the treasury on a public library'', ptype = ''FUNDING'',
             votingStartsAt = 1000, votingEndsAt = 86401000,
             requiredQuorum = 50, passingThreshold = 60, gasRequired = False,
             status = FAILED, yesVotes = 1, noVotes = 1, totalVotes = 2\<rparr>"
  by code_simp

text \<open>
  C4. At every point of every run, in every proposal, the yes and the no counter add up to
  the total and no counter is negative; along a run no counter ever falls. A successful
  vote adds its weight, which is positive, to the counter of the chosen side and to the
  total, and leaves the other side alone; an operation that is not a vote leaves every
  stored proposal as it is.
\<close>

theorem tallies_add_up_and_grow:
  "list_all tally_ok (proposals (run (initial cs ms) ops))
   \<and> (list_all tally_ok (proposals s) \<longrightarrow> list_all tally_ok (proposals (run s ops)))
   \<and> (find_proposal s k = Some p
        \<longrightarrow> (\<exists>p'. find_proposal (run s ops) k = Some p' \<and> tally_le p p'))
   \<and> (fst (castVote s r now1 now2) = Inr resp
        \<longrightarrow> 0 < cast_weight resp
          \<and> (\<exists>q q'. find_proposal s (vr_proposalId r) = Some q
                \<and> find_proposal (snd (castVote s r now1 now2)) (vr_proposalId r) = Some q'
                \<and> totalVotes q' = totalVotes q + cast_weight resp
                \<and> yesVotes q' = (if cast_vote resp then yesVotes q + cast_weight resp else yesVotes q)
                \<and> noVotes q' = (if cast_vote resp then noVotes q else noVotes q + cast_weight resp)))
   \<and> (\<not> is_vote op \<and> find_proposal s k = Some p \<longrightarrow> find_proposal (exec s op) k = Some p)"
proof (intro conjI impI)
  show "list_all tally_ok (proposals (run (initial cs ms) ops))"
    by (rule run_tally_ok) (simp add: initial_def)
next
  assume "list_all tally_ok (proposals s)"
  then show "list_all tally_ok (proposals (run s ops))" by (rule run_tally_ok)
next
  assume "find_proposal s k = Some p"
  from run_forward [OF this, of ops]
  show "\<exists>p'. find_proposal (run s ops) k = Some p' \<and> tally_le p p'" by blast
next
  assume a: "fst (castVote s r now1 now2) = Inr resp"
  from castVote_tally [OF a] show "0 < cast_weight resp" by auto
  from castVote_tally [OF a]
  show "\<exists>q q'. find_proposal s (vr_proposalId r) = Some q
          \<and> find_proposal (snd (castVote s r now1 now2)) (vr_proposalId r) = Some q'
          \<and> totalVotes q' = totalVotes q + cast_weight resp
          \<and> yesVotes q' = (if cast_vote resp then yesVotes q + cast_weight resp else yesVotes q)
          \<and> noVotes q' = (if cast_vote resp then noVotes q else noVotes q + cast_weight resp)"
    by auto
next
  assume "\<not> is_vote op \<and> find_proposal s k = Some p"
  then show "find_proposal (exec s op) k = Some p" by (simp add: exec_not_vote)
qed

text \<open>The theorem on the open proposal with one vote: a second vote and a read.\<close>

theorem tallies_add_up_and_grow_witness:
  "list_all tally_ok (proposals demo_voted)
   \<and> list_all tally_ok (proposals (run demo_voted
        [CastVote (demo_vote ''u2'' (JBool False)) 3000 3001,
         GetProposals (demo_list ''u2'') 4000]))
   \<and> find_proposal demo_voted demo_proposal = Some \<lparr>proposal_id = demo_proposal, communityId = demo_community,
             title = ''Fund the library'',
             description = ''Spend the treasury on a public library'', ptype = ''FUNDING'',
             votingStartsAt = 1000, votingEndsAt = 86401000,
             requiredQuorum = 50, passingThreshold = 60, gasRequired = False,
             status = ACTIVE, yesVotes = 1, noVotes = 0, totalVotes = 1\<rparr>
   \<and> (\<exists>p'. find_proposal (run demo_voted
                [CastVote (demo_vote ''u2'' (JBool False)) 3000 3001,
                 GetProposals (demo_list ''u2'') 4000]) demo_proposal = Some p'
            \<and> tally_le \<lparr>proposal_id = demo_proposal, communityId = demo_community,
             title = ''Fund the library'',
             description = ''Spend the treasury on a public library'', ptype = ''FUNDING'',
             votingStartsAt = 1000, votingEndsAt = 86401000,
             requiredQuorum = 50, passingThreshold = 60, gasRequired = False,
             status = ACTIVE, yesVotes = 1, noVotes = 0, totalVotes = 1\<rparr> p')
   \<and> fst (castVote demo_voted (demo_vote ''u2'' (JBool False)) 3000 3001)
       = Inr \<lparr>cast_vote = False, cast_weight = 1, cast_yesVotes = 1, cast_noVotes = 1,
               cast_totalVotes = 2, cast_participationRate = Fin 5629499534213120 (- 48)\<rparr>
   \<and> (\<exists>q'. find_proposal (snd (castVote demo_voted (demo_vote ''u2'' (JBool False)) 3000 3001))
               demo_proposal = Some q'
            \<and> totalVotes q' = 2 \<and> yesVotes q' = 1 \<and> noVotes q' = 1)
   \<and> \<not> is_vote (GetProposals (demo_list ''u2'') 4000)
   \<and> find_proposal (exec demo_voted (GetProposals (demo_list ''u2'') 4000)) demo_proposal
       = Some \<lparr>proposal_id = demo_proposal, communityId = demo_community,
             title = ''Fund the library'',
             description = ''Spend the treasury on a public library'', ptype = ''FUNDING'',
             votingStartsAt = 1000, votingEndsAt = 86401000,
             requiredQuorum = 50, passingThreshold = 60, gasRequired = False,
             status = ACTIVE, yesVotes = 1, noVotes = 0, totalVotes = 1\<rparr>"
proof -
  let ?ops = "[CastVote (demo_vote ''u2'' (JBool False)) 3000 3001,
               GetProposals (demo_list ''u2'') 4000]"
  let ?r = "demo_vote ''u2'' (JBool False)"
  let ?resp = "\<lparr>cast_vote = False, cast_weight = 1, cast_yesVotes = 1, cast_noVotes = 1,
               cast_totalVotes = 2, cast_participationRate = Fin 5629499534213120 (- 48)\<rparr>"
  let ?op = "GetProposals (demo_list ''u2'') 4000"
  have t: "list_all tally_ok (proposals demo_voted)" by code_simp
  have f: "find_proposal demo_voted demo_proposal = Some \<lparr>proposal_id = demo_proposal, communityId = demo_community,
             title = ''Fund the library'',
             description = ''Spend the treasury on a public library'', ptype = ''FUNDING'',
             votingStartsAt = 1000, votingEndsAt = 86401000,
             requiredQuorum = 50, passingThreshold = 60, gasRequired = False,
             status = ACTIVE, yesVotes = 1, noVotes = 0, totalVotes = 1\<rparr>" by code_simp
  have c: "fst (castVote demo_voted ?r 3000 3001) = Inr ?resp" by code_simp
  have n: "\<not> is_vote ?op" by simp
  have i: "vr_proposalId ?r = demo_proposal" by (simp add: demo_vote_def)
  note inst = tallies_add_up_and_grow [where s = demo_voted and ops = ?ops and k = demo_proposal
      and p = "\<lparr>proposal_id = demo_proposal, communityId = demo_community,
             title = ''Fund the library'',
             description = ''Spend the treasury on a public library'', ptype = ''FUNDING'',
             votingStartsAt = 1000, votingEndsAt = 86401000,
             requiredQuorum = 50, passingThreshold = 60, gasRequired = False,
             status = ACTIVE, yesVotes = 1, noVotes = 0, totalVotes = 1\<rparr>" and r = ?r and ?now1.0 = 3000 and ?now2.0 = 3001 and resp = ?resp and op = ?op]
  from inst t have 1: "list_all tally_ok (proposals (run demo_voted ?ops))" by blast
  from inst f have 2: "\<exists>p'. find_proposal (run demo_voted ?ops) demo_proposal = Some p'
            \<and> tally_le \<lparr>proposal_id = demo_proposal, communityId = demo_community,
             title = ''Fund the library'',
             description = ''Spend the treasury on a public library'', ptype = ''FUNDING'',
             votingStartsAt = 1000, votingEndsAt = 86401000,
             requiredQuorum = 50, passingThreshold = 60, gasRequired = False,
             status = ACTIVE, yesVotes = 1, noVotes = 0, totalVotes = 1\<rparr> p'" by blast
  from inst c obtain q q' where q: "find_proposal demo_voted (vr_proposalId ?r) = Some q"
      "find_proposal (snd (castVote demo_voted ?r 3000 3001)) (vr_proposalId ?r) = Some q'"
      "totalVotes q' = totalVotes q + cast_weight ?resp"
      "yesVotes q' = (if cast_vote ?resp then yesVotes q + cast_weight ?resp else yesVotes q)"
      "noVotes q' = (if cast_vote ?resp then noVotes q else noVotes q + cast_weight ?resp)"
    by blast
  from q(1) f i have "q = \<lparr>proposal_id = demo_proposal, communityId = demo_community,
             title = ''Fund the library'',
             description = ''Spend the treasury on a public library'', ptype = ''FUNDING'',
             votingStartsAt = 1000, votingEndsAt = 86401000,
             requiredQuorum = 50, passingThreshold = 60, gasRequired = False,
             status = ACTIVE, yesVotes = 1, noVotes = 0, totalVotes = 1\<rparr>" by simp
  with q i have 3: "\<exists>q'. find_proposal (snd (castVote demo_voted ?r 3000 3001))
               demo_proposal = Some q' \<and> totalVotes q' = 2 \<and> yesVotes q' = 1 \<and> noVotes q' = 1"
    by simp
  from inst n f have 4: "find_proposal (exec demo_voted ?op) demo_proposal = Some \<lparr>proposal_id = demo_proposal, communityId = demo_community,
             title = ''Fund the library'',
             description = ''Spend the treasury on a public library'', ptype = ''FUNDING'',
             votingStartsAt = 1000, votingEndsAt = 86401000,
             requiredQuorum = 50, passingThreshold = 60, gasRequired = False,
             status = ACTIVE, yesVotes = 1, noVotes = 0, totalVotes = 1\<rparr>"
    by blast
  from t 1 f 2 c 3 n 4 show ?thesis by blast
qed

text \<open>
  C10. Whatever the voting power of the community, an admitted vote has weight 1: in the
  answer, on the vote record and in the tally. So in every run from the empty store every
  vote of the ledger has weight 1 and the total of a proposal is the number of votes the
  ledger holds for it.
\<close>

theorem every_vote_weighs_one:
  "(fst (castVote s r now1 now2) = Inr resp
      \<longrightarrow> cast_weight resp = 1
        \<and> votes (snd (castVote s r now1 now2))
            = votes s @ [\<lparr>proposalId = vr_proposalId r, userId = vr_user r,
                           vote = cast_vote resp, weight = 1\<rparr>]
        \<and> (\<exists>q q'. find_proposal s (vr_proposalId r) = Some q
              \<and> find_proposal (snd (castVote s r now1 now2)) (vr_proposalId r) = Some q'
              \<and> totalVotes q' = totalVotes q + 1))
   \<and> list_all (\<lambda>v. weight v = 1) (votes (run (initial cs ms) ops))
   \<and> (find_proposal (run (initial cs ms) ops) k = Some p
        \<longrightarrow> totalVotes p = int (length (votes_on (run (initial cs ms) ops) k)))"
proof (intro conjI impI)
  assume a: "fst (castVote s r now1 now2) = Inr resp"
  from castVote_tally [OF a] show "cast_weight resp = 1" by auto
  from castVote_tally [OF a]
  show "votes (snd (castVote s r now1 now2))
        = votes s @ [\<lparr>proposalId = vr_proposalId r, userId = vr_user r,
                       vote = cast_vote resp, weight = 1\<rparr>]"
    by auto
  from castVote_tally [OF a]
  show "\<exists>q q'. find_proposal s (vr_proposalId r) = Some q
          \<and> find_proposal (snd (castVote s r now1 now2)) (vr_proposalId r) = Some q'
          \<and> totalVotes q' = totalVotes q + 1"
    by auto
next
  have c: "counted (run (initial cs ms) ops)"
    by (rule run_counted) (rule counted_initial)
  then show "list_all (\<lambda>v. weight v = 1) (votes (run (initial cs ms) ops))"
    by (simp add: counted_def list_all_iff)
  assume f: "find_proposal (run (initial cs ms) ops) k = Some p"
  from c find_proposal_mem [OF f] find_proposal_id [OF f]
  show "totalVotes p = int (length (votes_on (run (initial cs ms) ops) k))"
    by (auto simp: counted_def list_all_iff)
qed

text \<open>The theorem in a token-weighted community, and on a run in an NFT-weighted one.\<close>

theorem every_vote_weighs_one_witness:
  "fst (castVote (demo_weighted TOKEN_WEIGHTED) (demo_vote ''u1'' (JBool True)) 3000 3001)
     = Inr \<lparr>cast_vote = True, cast_weight = 1, cast_yesVotes = 1, cast_noVotes = 0,
             cast_totalVotes = 1, cast_participationRate = Fin 5629499534213120 (- 49)\<rparr>
   \<and> votes (snd (castVote (demo_weighted TOKEN_WEIGHTED) (demo_vote ''u1'' (JBool True)) 3000 3001))
     = votes (demo_weighted TOKEN_WEIGHTED)
       @ [\<lparr>proposalId = demo_proposal, userId = ''u1'', vote = True, weight = 1\<rparr>]
   \<and> find_proposal (run (initial demo_nft_communities demo_members) demo_ops) demo_proposal
     = Some \<lparr>proposal_id = demo_proposal, communityId = demo_community,
             title = ''Fund the library'',
             description = ''Spend the treasury on a public library'', ptype = ''FUNDING'',
             votingStartsAt = 1000, votingEndsAt = 86401000,
             requiredQuorum = 50, passingThreshold = 60, gasRequired = False,
             status = ACTIVE, yesVotes = 1, noVotes = 1, totalVotes = 2\<rparr>
   \<and> totalVotes \<lparr>proposal_id = demo_proposal, communityId = demo_community,
             title = ''Fund the library'',
             description = ''Spend the treasury on a public library'', ptype = ''FUNDING'',
             votingStartsAt = 1000, votingEndsAt = 86401000,
             requiredQuorum = 50, passingThreshold = 60, gasRequired = False,
             status = ACTIVE, yesVotes = 1, noVotes = 1, totalVotes = 2\<rparr>
     = int (length (votes_on (run (initial demo_nft_communities demo_members) demo_ops)
                      demo_proposal))
   \<and> list_all (\<lambda>v. weight v = 1) (votes (run (initial demo_nft_communities demo_members) demo_ops))"
proof -
  let ?s = "demo_weighted TOKEN_WEIGHTED"
  let ?r = "demo_vote ''u1'' (JBool True)"
  let ?resp = "\<lparr>cast_vote = True, cast_weight = 1, cast_yesVotes = 1, cast_noVotes = 0,
             cast_totalVotes = 1, cast_participationRate = Fin 5629499534213120 (- 49)\<rparr>"
  have c: "fst (castVote ?s ?r 3000 3001) = Inr ?resp" by code_simp
  have f: "find_proposal (run (initial demo_nft_communities demo_members) demo_ops) demo_proposal
           = Some \<lparr>proposal_id = demo_proposal, communityId = demo_community,
             title = ''Fund the library'',
             description = ''Spend the treasury on a public library'', ptype = ''FUNDING'',
             votingStartsAt = 1000, votingEndsAt = 86401000,
             requiredQuorum = 50, passingThreshold = 60, gasRequired = False,
             status = ACTIVE, yesVotes = 1, noVotes = 1, totalVotes = 2\<rparr>" by code_simp
  have i: "vr_proposalId ?r = demo_proposal" "vr_user ?r = ''u1''" by (simp_all add: demo_vote_def)
  note inst = every_vote_weighs_one [where s = ?s and r = ?r and ?now1.0 = 3000 and ?now2.0 = 3001
      and resp = ?resp and cs = demo_nft_communities and ms = demo_members and ops = demo_ops
      and k = demo_proposal and p = "\<lparr>proposal_id = demo_proposal, communityId = demo_community,
             title = ''Fund the library'',
             description = ''Spend the treasury on a public library'', ptype = ''FUNDING'',
             votingStartsAt = 1000, votingEndsAt = 86401000,
             requiredQuorum = 50, passingThreshold = 60, gasRequired = False,
             status = ACTIVE, yesVotes = 1, noVotes = 1, totalVotes = 2\<rparr>"]
  from inst c i have 1: "votes (snd (castVote ?s ?r 3000 3001))
     = votes ?s @ [\<lparr>proposalId = demo_proposal, userId = ''u1'', vote = True, weight = 1\<rparr>]"
    by simp
  from inst f have 2: "totalVotes \<lparr>proposal_id = demo_proposal, communityId = demo_community,
             title = ''Fund the library'',
             description = ''Spend the treasury on a public library'', ptype = ''FUNDING'',
             votingStartsAt = 1000, votingEndsAt = 86401000,
             requiredQuorum = 50, passingThreshold = 60, gasRequired = False,
             status = ACTIVE, yesVotes = 1, noVotes = 1, totalVotes = 2\<rparr>
     = int (length (votes_on (run (initial demo_nft_communities demo_members) demo_ops)
                      demo_proposal))" by blast
  from inst have 3: "list_all (\<lambda>v. weight v = 1)
      (votes (run (initial demo_nft_communities demo_members) demo_ops))" by blast
  from c 1 f 2 3 show ?thesis by blast
qed

text \<open>
  C3, as the code has it. The read of the proposals writes nothing: the store it leaves is
  the store it found, and every proposal it shows is a stored one, with its stored status.
  An \<open>ACTIVE\<close> proposal whose window has ended is shown as \<open>ACTIVE\<close>, flagged as not active
  and not open to a vote, with no time remaining. The sources have no read of a single
  proposal and no sweep of expired ones.
\<close>

theorem getProposals_never_writes:
  "snd (getProposals s r now) = s
   \<and> (fst (getProposals s r now) = Inr views
        \<longrightarrow> list_all (\<lambda>v. view_of v \<in> set (proposals s)) views
          \<and> list_all (\<lambda>v. status (view_of v) \<noteq> ACTIVE \<or> now < votingEndsAt (view_of v)
                          \<or> (\<not> isActive v \<and> \<not> canVote v \<and> timeRemaining v = 0)) views)"
proof (intro conjI impI)
  show "snd (getProposals s r now) = s" by (rule getProposals_store)
next
  assume a: "fst (getProposals s r now) = Inr views"
  have sub: "set (take n (drop m (filter P (rev xs)))) \<subseteq> set xs"
    for n m P and xs :: "proposal list"
    by (auto dest!: in_set_takeD in_set_dropD)
  let ?ps = "take (nat (default_to 10 (lr_limit r)))
               (drop (nat (((case lr_page r of None \<Rightarrow> 1 | Some n \<Rightarrow> uint n) - 1)
                          * default_to 10 (lr_limit r)))
                 (filter (\<lambda>p. communityId p = lr_communityId r \<and> status_matches r p)
                   (rev (proposals s))))"
  from a have v: "views = map (format_proposal s (lr_user r) now) ?ps"
    by (auto simp: getProposals_def Let_def split: if_splits option.splits)
  have ps: "set ?ps \<subseteq> set (proposals s)" by (rule sub)
  from v ps show "list_all (\<lambda>v. view_of v \<in> set (proposals s)) views"
    by (auto simp: list_all_iff format_proposal_def Let_def)
  from v show "list_all (\<lambda>v. status (view_of v) \<noteq> ACTIVE \<or> now < votingEndsAt (view_of v)
                          \<or> (\<not> isActive v \<and> \<not> canVote v \<and> timeRemaining v = 0)) views"
    by (auto simp: list_all_iff format_proposal_def Let_def)
qed

text \<open>The theorem on a read an hour after the window of the proposal with two votes.\<close>

theorem getProposals_never_writes_witness:
  "fst (getProposals demo_two_votes (demo_list ''u3'') 90000000)
     = Inr [\<lparr>view_of = \<lparr>proposal_id = demo_proposal, communityId = demo_community,
             title = ''Fund the library'',
             description = ''Spend the treasury on a public library'', ptype = ''FUNDING'',
             votingStartsAt = 1000, votingEndsAt = 86401000,
             requiredQuorum = 50, passingThreshold = 60, gasRequired = False,
             status = ACTIVE, yesVotes = 1, noVotes = 1, totalVotes = 2\<rparr>, hasVoted = False, userVote = None, timeRemaining = 0,
              isActive = False, view_participationRate = ''100.0'', canVote = False\<rparr>]
   \<and> snd (getProposals demo_two_votes (demo_list ''u3'') 90000000) = demo_two_votes
   \<and> list_all (\<lambda>v. view_of v \<in> set (proposals demo_two_votes))
       [\<lparr>view_of = \<lparr>proposal_id = demo_proposal, communityId = demo_community,
             title = ''Fund the library'',
             description = ''Spend the treasury on a public library'', ptype = ''FUNDING'',
             votingStartsAt = 1000, votingEndsAt = 86401000,
             requiredQuorum = 50, passingThreshold = 60, gasRequired = False,
             status = ACTIVE, yesVotes = 1, noVotes = 1, totalVotes = 2\<rparr>, hasVoted = False, userVote = None, timeRemaining = 0,
              isActive = False, view_participationRate = ''100.0'', canVote = False\<rparr>]"
proof -
  let ?views = "[\<lparr>view_of = \<lparr>proposal_id = demo_proposal, communityId = demo_community,
             title = ''Fund the library'',
             description = ''Spend the treasury on a public library'', ptype = ''FUNDING'',
             votingStartsAt = 1000, votingEndsAt = 86401000,
             requiredQuorum = 50, passingThreshold = 60, gasRequired = False,
             status = ACTIVE, yesVotes = 1, noVotes = 1, totalVotes = 2\<rparr>, hasVoted = False, userVote = None, timeRemaining = 0,
              isActive = False, view_participationRate = ''100.0'', canVote = False\<rparr>]"
  have c: "fst (getProposals demo_two_votes (demo_list ''u3'') 90000000) = Inr ?views"
    by code_simp
  from getProposals_never_writes [of demo_two_votes "demo_list ''u3''" 90000000 ?views] c
  show ?thesis by blast
qed

text \<open>
  The claim as it was stated fails in the scenario of the specification: quorum 50 in a
  community of ten, two votes cast, the window over. The read shows the proposal as
  \<open>ACTIVE\<close> and the store still holds it as \<open>ACTIVE\<close>, not as \<open>FAILED\<close>.
\<close>

theorem getProposals_never_writes_counterexample:
  "find_proposal demo_two_votes demo_proposal = Some \<lparr>proposal_id = demo_proposal, communityId = demo_community,
             title = ''Fund the library'',
             description = ''Spend the treasury on a public library'', ptype = ''FUNDING'',
             votingStartsAt = 1000, votingEndsAt = 86401000,
             requiredQuorum = 50, passingThreshold = 60, gasRequired = False,
             status = ACTIVE, yesVotes = 1, noVotes = 1, totalVotes = 2\<rparr>
   \<and> communities demo_two_votes demo_community = Some \<lparr>memberCount = 10, votingPower = EQUAL\<rparr>
   \<and> (86401000 :: int) < 90000000
   \<and> fst (getProposals demo_two_votes (demo_list ''u3'') 90000000)
       = Inr [\<lparr>view_of = \<lparr>proposal_id = demo_proposal, communityId = demo_community,
             title = ''Fund the library'',
             description = ''Spend the treasury on a public library'', ptype = ''FUNDING'',
             votingStartsAt = 1000, votingEndsAt = 86401000,
             requiredQuorum = 50, passingThreshold = 60, gasRequired = False,
             status = ACTIVE, yesVotes = 1, noVotes = 1, totalVotes = 2\<rparr>, hasVoted = False, userVote = None, timeRemaining = 0,
                isActive = False, view_participationRate = ''100.0'', canVote = False\<rparr>]
   \<and> find_proposal (snd (getProposals demo_two_votes (demo_list ''u3'') 90000000)) demo_proposal
       = Some \<lparr>proposal_id = demo_proposal, communityId = demo_community,
             title = ''Fund the library'',
             description = ''Spend the treasury on a public library'', ptype = ''FUNDING'',
             votingStartsAt = 1000, votingEndsAt = 86401000,
             requiredQuorum = 50, passingThreshold = 60, gasRequired = False,
             status = ACTIVE, yesVotes = 1, noVotes = 1, totalVotes = 2\<rparr>
   \<and> map_option status
        (find_proposal (snd (getProposals demo_two_votes (demo_list ''u3'') 90000000))
           demo_proposal) \<noteq> Some FAILED"
  by code_simp




text \<open>
  C8, as the code has it. A request whose voting duration is outside 1 to 168 hours, or
  whose quorum or threshold is outside 1 to 100, is refused with \<open>ValidationFailed\<close>, the
  field among the reported ones (InvalidRange). A request that passes validation from an
  author who is no member, or has no role with \<open>CREATE_PROPOSALS\<close>, is refused with
  status 403 (PermissionDenied); validation comes before the permission check. No refusal
  writes. On success the proposal starts now, ends after the duration, is \<open>ACTIVE\<close> with
  tallies at zero, and quorum and threshold are 50 when omitted.
\<close>

theorem createProposal_contract:
  "(cr_votingDuration r = Some d \<and> (d < 1 \<or> 168 < d)
      \<longrightarrow> (\<exists>fs. createProposal s r new_id now = (Inl (ValidationFailed fs), s)
                \<and> F_votingDuration \<in> set fs))
   \<and> (cr_requiredQuorum r = Some q \<and> (q < 1 \<or> 100 < q)
      \<longrightarrow> (\<exists>fs. createProposal s r new_id now = (Inl (ValidationFailed fs), s)
                \<and> F_requiredQuorum \<in> set fs))
   \<and> (cr_passingThreshold r = Some t \<and> (t < 1 \<or> 100 < t)
      \<longrightarrow> (\<exists>fs. createProposal s r new_id now = (Inl (ValidationFailed fs), s)
                \<and> F_passingThreshold \<in> set fs))
   \<and> (create_validators r = []
        \<and> (case members s (cr_user r, cr_communityId r) of
              None \<Rightarrow> True
            | Some roles \<Rightarrow> \<not> has_permission roles ''CREATE_PROPOSALS'')
      \<longrightarrow> (\<exists>e. createProposal s r new_id now = (Inl e, s) \<and> statusCode e = 403))
   \<and> (create_validators r = [] \<and> members s (cr_user r, cr_communityId r) = Some roles
        \<and> has_permission roles ''CREATE_PROPOSALS'' \<and> find_proposal s new_id = None
      \<longrightarrow> (\<exists>p h. createProposal s r new_id now
                    = (Inr \<lparr>created = p, created_canVote = True, created_hasVoted = False,
                            created_timeRemaining = h * 60 * 60 * 1000\<rparr>,
                       s\<lparr>proposals := proposals s @ [p]\<rparr>)
                \<and> cr_votingDuration r = Some h \<and> 1 \<le> h \<and> h \<le> 168
                \<and> proposal_id p = new_id \<and> communityId p = cr_communityId r
                \<and> votingStartsAt p = now \<and> votingEndsAt p = now + h * 60 * 60 * 1000
                \<and> status p = ACTIVE \<and> yesVotes p = 0 \<and> noVotes p = 0 \<and> totalVotes p = 0
                \<and> requiredQuorum p = (case cr_requiredQuorum r of None \<Rightarrow> 50 | Some q \<Rightarrow> q)
                \<and> passingThreshold p = (case cr_passingThreshold r of None \<Rightarrow> 50 | Some t \<Rightarrow> t)
                \<and> 1 \<le> requiredQuorum p \<and> requiredQuorum p \<le> 100
                \<and> 1 \<le> passingThreshold p \<and> passingThreshold p \<le> 100))"
proof (intro conjI impI)
  assume "cr_votingDuration r = Some d \<and> (d < 1 \<or> 168 < d)"
  then show "\<exists>fs. createProposal s r new_id now = (Inl (ValidationFailed fs), s)
                \<and> F_votingDuration \<in> set fs"
    by (auto simp: createProposal_def create_validators_def check_def)
next
  assume "cr_requiredQuorum r = Some q \<and> (q < 1 \<or> 100 < q)"
  then show "\<exists>fs. createProposal s r new_id now = (Inl (ValidationFailed fs), s)
                \<and> F_requiredQuorum \<in> set fs"
    by (auto simp: createProposal_def create_validators_def check_def optional_def)
next
  assume "cr_passingThreshold r = Some t \<and> (t < 1 \<or> 100 < t)"
  then show "\<exists>fs. createProposal s r new_id now = (Inl (ValidationFailed fs), s)
                \<and> F_passingThreshold \<in> set fs"
    by (auto simp: createProposal_def create_validators_def check_def optional_def)
next
  assume "create_validators r = []
        \<and> (case members s (cr_user r, cr_communityId r) of
              None \<Rightarrow> True
            | Some roles \<Rightarrow> \<not> has_permission roles ''CREATE_PROPOSALS'')"
  then show "\<exists>e. createProposal s r new_id now = (Inl e, s) \<and> statusCode e = 403"
    by (auto simp: createProposal_def split: option.splits)
next
  assume a: "create_validators r = [] \<and> members s (cr_user r, cr_communityId r) = Some roles
        \<and> has_permission roles ''CREATE_PROPOSALS'' \<and> find_proposal s new_id = None"
  then have v: "create_validators r = []" by simp
  then have d: "isInt 1 168 (cr_votingDuration r)"
    and q: "optional (\<lambda>q. isInt 1 100 (Some q)) (cr_requiredQuorum r) F_requiredQuorum = []"
    and t: "optional (\<lambda>t. isInt 1 100 (Some t)) (cr_passingThreshold r) F_passingThreshold = []"
    by (auto simp: create_validators_def check_def split: if_splits)
  from d obtain h where h: "cr_votingDuration r = Some h" "1 \<le> h" "h \<le> 168"
    by (cases "cr_votingDuration r") auto
  let ?p = "new_proposal new_id r now (now + h * 60 * 60 * 1000)"
  have c: "createProposal s r new_id now
        = (Inr \<lparr>created = ?p, created_canVote = True, created_hasVoted = False,
                created_timeRemaining = h * 60 * 60 * 1000\<rparr>,
           s\<lparr>proposals := proposals s @ [?p]\<rparr>)"
    using a h by (simp add: createProposal_def Let_def)
  have qr: "1 \<le> requiredQuorum ?p \<and> requiredQuorum ?p \<le> 100"
    using q by (auto simp: new_proposal_def default_to_def optional_def check_def
                     split: option.splits if_splits)
  have tr: "1 \<le> passingThreshold ?p \<and> passingThreshold ?p \<le> 100"
    using t by (auto simp: new_proposal_def default_to_def optional_def check_def
                     split: option.splits if_splits)
  have fields: "proposal_id ?p = new_id" "communityId ?p = cr_communityId r"
    "votingStartsAt ?p = now" "votingEndsAt ?p = now + h * 60 * 60 * 1000"
    "status ?p = ACTIVE" "yesVotes ?p = 0" "noVotes ?p = 0" "totalVotes ?p = 0"
    "requiredQuorum ?p = (case cr_requiredQuorum r of None \<Rightarrow> 50 | Some q \<Rightarrow> q)"
    "passingThreshold ?p = (case cr_passingThreshold r of None \<Rightarrow> 50 | Some t \<Rightarrow> t)"
    by (simp_all add: new_proposal_def default_to_def)
  from c h qr tr fields
  show "\<exists>p h. createProposal s r new_id now
                    = (Inr \<lparr>created = p, created_canVote = True, created_hasVoted = False,
                            created_timeRemaining = h * 60 * 60 * 1000\<rparr>,
                       s\<lparr>proposals := proposals s @ [p]\<rparr>)
                \<and> cr_votingDuration r = Some h \<and> 1 \<le> h \<and> h \<le> 168
                \<and> proposal_id p = new_id \<and> communityId p = cr_communityId r
                \<and> votingStartsAt p = now \<and> votingEndsAt p = now + h * 60 * 60 * 1000
                \<and> status p = ACTIVE \<and> yesVotes p = 0 \<and> noVotes p = 0 \<and> totalVotes p = 0
                \<and> requiredQuorum p = (case cr_requiredQuorum r of None \<Rightarrow> 50 | Some q \<Rightarrow> q)
                \<and> passingThreshold p = (case cr_passingThreshold r of None \<Rightarrow> 50 | Some t \<Rightarrow> t)
                \<and> 1 \<le> requiredQuorum p \<and> requiredQuorum p \<le> 100
                \<and> 1 \<le> passingThreshold p \<and> passingThreshold p \<le> 100"
    by blast
qed

text \<open>The theorem on three requests: one with every range broken, one of a member
  without a role, one of the administrator with quorum and threshold omitted.\<close>

theorem createProposal_contract_witness:
  "cr_votingDuration (demo_create ''admin'' (Some 169) (Some 0) (Some 101)) = Some 169
   \<and> (\<exists>fs. createProposal (initial (demo_communities 10) demo_members)
               (demo_create ''admin'' (Some 169) (Some 0) (Some 101)) demo_proposal 1000
             = (Inl (ValidationFailed fs), initial (demo_communities 10) demo_members)
           \<and> F_votingDuration \<in> set fs)
   \<and> (\<exists>fs. createProposal (initial (demo_communities 10) demo_members)
               (demo_create ''admin'' (Some 169) (Some 0) (Some 101)) demo_proposal 1000
             = (Inl (ValidationFailed fs), initial (demo_communities 10) demo_members)
           \<and> F_requiredQuorum \<in> set fs)
   \<and> (\<exists>fs. createProposal (initial (demo_communities 10) demo_members)
               (demo_create ''admin'' (Some 169) (Some 0) (Some 101)) demo_proposal 1000
             = (Inl (ValidationFailed fs), initial (demo_communities 10) demo_members)
           \<and> F_passingThreshold \<in> set fs)
   \<and> create_validators (demo_create ''guest'' (Some 24) None None) = []
   \<and> (\<exists>e. createProposal (initial (demo_communities 10) demo_members)
              (demo_create ''guest'' (Some 24) None None) demo_proposal 1000
            = (Inl e, initial (demo_communities 10) demo_members)
          \<and> statusCode e = 403)
   \<and> (\<exists>p. createProposal (initial (demo_communities 10) demo_members)
              (demo_create ''admin'' (Some 24) None None) demo_proposal 1000
            = (Inr \<lparr>created = p, created_canVote = True, created_hasVoted = False,
                    created_timeRemaining = 86400000\<rparr>,
               (initial (demo_communities 10) demo_members)
                 \<lparr>proposals := proposals (initial (demo_communities 10) demo_members) @ [p]\<rparr>)
          \<and> votingStartsAt p = 1000 \<and> votingEndsAt p = 86401000 \<and> status p = ACTIVE
          \<and> yesVotes p = 0 \<and> noVotes p = 0 \<and> totalVotes p = 0
          \<and> requiredQuorum p = 50 \<and> passingThreshold p = 50)"
proof -
  let ?s = "initial (demo_communities 10) demo_members"
  let ?bad = "demo_create ''admin'' (Some 169) (Some 0) (Some 101)"
  let ?guest = "demo_create ''guest'' (Some 24) None None"
  let ?ok = "demo_create ''admin'' (Some 24) None None"
  have b: "cr_votingDuration ?bad = Some 169" "cr_requiredQuorum ?bad = Some 0"
    "cr_passingThreshold ?bad = Some 101"
    by (simp_all add: demo_create_def)
  note bad = createProposal_contract [where r = ?bad and d = 169 and q = 0 and t = 101
      and s = ?s and new_id = demo_proposal and now = 1000]
  from bad b have 1: "\<exists>fs. createProposal ?s ?bad demo_proposal 1000 = (Inl (ValidationFailed fs), ?s)
           \<and> F_votingDuration \<in> set fs" by simp
  from bad b have 2: "\<exists>fs. createProposal ?s ?bad demo_proposal 1000 = (Inl (ValidationFailed fs), ?s)
           \<and> F_requiredQuorum \<in> set fs" by simp
  from bad b have 3: "\<exists>fs. createProposal ?s ?bad demo_proposal 1000 = (Inl (ValidationFailed fs), ?s)
           \<and> F_passingThreshold \<in> set fs" by simp
  have gv: "create_validators ?guest = []" by code_simp
  have gm: "members ?s (cr_user ?guest, cr_communityId ?guest) = Some []" by code_simp
  have gp: "\<not> has_permission [] ''CREATE_PROPOSALS''" by (simp add: has_permission_def)
  from createProposal_contract [where r = ?guest and s = ?s and new_id = demo_proposal
      and now = 1000] gv gm gp
  have 4: "\<exists>e. createProposal ?s ?guest demo_proposal 1000 = (Inl e, ?s) \<and> statusCode e = 403"
    by simp
  have ov: "create_validators ?ok = []" by code_simp
  have om: "members ?s (cr_user ?ok, cr_communityId ?ok)
            = Some [[''MANAGE_COMMUNITY'', ''MANAGE_MEMBERS'', ''CREATE_PROPOSALS'', ''MANAGE_ROLES'']]"
    by code_simp
  have op: "has_permission [[''MANAGE_COMMUNITY'', ''MANAGE_MEMBERS'', ''CREATE_PROPOSALS'', ''MANAGE_ROLES'']]
              ''CREATE_PROPOSALS''" by code_simp
  have fresh: "find_proposal ?s demo_proposal = None" by code_simp
  have od: "cr_votingDuration ?ok = Some 24" "cr_requiredQuorum ?ok = None"
    "cr_passingThreshold ?ok = None"
    by (simp_all add: demo_create_def)
  from createProposal_contract [where r = ?ok and s = ?s and new_id = demo_proposal
      and now = 1000 and roles = "[[''MANAGE_COMMUNITY'', ''MANAGE_MEMBERS'', ''CREATE_PROPOSALS'', ''MANAGE_ROLES'']]"]
    ov om op fresh
  obtain p h where ph: "createProposal ?s ?ok demo_proposal 1000
                    = (Inr \<lparr>created = p, created_canVote = True, created_hasVoted = False,
                            created_timeRemaining = h * 60 * 60 * 1000\<rparr>,
                       ?s\<lparr>proposals := proposals ?s @ [p]\<rparr>)"
      "cr_votingDuration ?ok = Some h"
      "votingStartsAt p = 1000" "votingEndsAt p = 1000 + h * 60 * 60 * 1000"
      "status p = ACTIVE" "yesVotes p = 0" "noVotes p = 0" "totalVotes p = 0"
      "requiredQuorum p = (case cr_requiredQuorum ?ok of None \<Rightarrow> 50 | Some q \<Rightarrow> q)"
      "passingThreshold p = (case cr_passingThreshold ?ok of None \<Rightarrow> 50 | Some t \<Rightarrow> t)"
    by blast
  from ph(2) od(1) have "h = 24" by simp
  with ph od have 5: "\<exists>p. createProposal ?s ?ok demo_proposal 1000
            = (Inr \<lparr>created = p, created_canVote = True, created_hasVoted = False,
                    created_timeRemaining = 86400000\<rparr>,
               ?s\<lparr>proposals := proposals ?s @ [p]\<rparr>)
          \<and> votingStartsAt p = 1000 \<and> votingEndsAt p = 86401000 \<and> status p = ACTIVE
          \<and> yesVotes p = 0 \<and> noVotes p = 0 \<and> totalVotes p = 0
          \<and> requiredQuorum p = 50 \<and> passingThreshold p = 50"
    by auto
  from b(1) 1 2 3 gv 4 5 show ?thesis by blast
qed

text \<open>
  The claim as it was stated fails on an author without the capability whose title is too
  short: the request is refused with \<open>ValidationFailed\<close>, status 400, not with 403.
\<close>

theorem createProposal_contract_counterexample:
  "members (initial (demo_communities 10) demo_members) (''guest'', demo_community) = Some []
   \<and> \<not> has_permission [] ''CREATE_PROPOSALS''
   \<and> fst (createProposal (initial (demo_communities 10) demo_members)
            ((demo_create ''guest'' (Some 24) (Some 50) (Some 50))\<lparr>cr_title := ''Hi''\<rparr>)
            demo_proposal 1000)
       = Inl (ValidationFailed [F_title])
   \<and> statusCode (ValidationFailed [F_title]) \<noteq> 403"
  by code_simp

text \<open>
  C6. Early exit. A proposal with quorum 50 and threshold 60 in a community of ten members,
  with no vote yet, has passed right after the fifth of five successful yes votes, and is
  still \<open>ACTIVE\<close> after the fourth; the fifth vote was admitted, so its time is not past
  the end of the window.
\<close>

theorem early_exit:
  assumes p: "find_proposal s0 k = Some p"
    and cfg: "requiredQuorum p = 50" "passingThreshold p = 60"
    and zero: "yesVotes p = 0" "noVotes p = 0" "totalVotes p = 0"
    and ten: "communities s0 (communityId p) = Some c" "memberCount c = 10"
    and yes: "vr_vote r1 = JBool True" "vr_vote r2 = JBool True" "vr_vote r3 = JBool True"
      "vr_vote r4 = JBool True" "vr_vote r5 = JBool True"
    and ids: "vr_proposalId r1 = k" "vr_proposalId r2 = k" "vr_proposalId r3 = k"
      "vr_proposalId r4 = k" "vr_proposalId r5 = k"
    and v1: "castVote s0 r1 a1 b1 = (Inr x1, s1)"
    and v2: "castVote s1 r2 a2 b2 = (Inr x2, s2)"
    and v3: "castVote s2 r3 a3 b3 = (Inr x3, s3)"
    and v4: "castVote s3 r4 a4 b4 = (Inr x4, s4)"
    and v5: "castVote s4 r5 a5 b5 = (Inr x5, s5)"
  shows "(\<exists>q4. find_proposal s4 k = Some q4 \<and> status q4 = ACTIVE \<and> totalVotes q4 = 4)
       \<and> (\<exists>q5. find_proposal s5 k = Some q5 \<and> status q5 = PASSED
                \<and> yesVotes q5 = 5 \<and> noVotes q5 = 0 \<and> totalVotes q5 = 5)
       \<and> a5 \<le> votingEndsAt p"
proof -
  from yes_vote_of_ten [OF v1 yes(1) ids(1) p ten cfg zero(1,2)] zero obtain q1 where
    q1: "find_proposal s1 k = Some q1" "communities s1 (communityId q1) = Some c"
      "requiredQuorum q1 = 50" "passingThreshold q1 = 60"
      "yesVotes q1 = 1" "noVotes q1 = 0" "totalVotes q1 = 1" "votingEndsAt q1 = votingEndsAt p"
    by auto
  from yes_vote_of_ten [OF v2 yes(2) ids(2) q1(1,2) ten(2) q1(3,4,5,6)] q1 obtain q2 where
    q2: "find_proposal s2 k = Some q2" "communities s2 (communityId q2) = Some c"
      "requiredQuorum q2 = 50" "passingThreshold q2 = 60"
      "yesVotes q2 = 2" "noVotes q2 = 0" "totalVotes q2 = 2" "votingEndsAt q2 = votingEndsAt p"
    by auto
  from yes_vote_of_ten [OF v3 yes(3) ids(3) q2(1,2) ten(2) q2(3,4,5,6)] q2 obtain q3 where
    q3: "find_proposal s3 k = Some q3" "communities s3 (communityId q3) = Some c"
      "requiredQuorum q3 = 50" "passingThreshold q3 = 60"
      "yesVotes q3 = 3" "noVotes q3 = 0" "totalVotes q3 = 3" "votingEndsAt q3 = votingEndsAt p"
    by auto
  from yes_vote_of_ten [OF v4 yes(4) ids(4) q3(1,2) ten(2) q3(3,4,5,6)] q3 obtain q4 where
    q4: "find_proposal s4 k = Some q4" "communities s4 (communityId q4) = Some c"
      "requiredQuorum q4 = 50" "passingThreshold q4 = 60"
      "yesVotes q4 = 4" "noVotes q4 = 0" "totalVotes q4 = 4" "votingEndsAt q4 = votingEndsAt p"
      "status q4 = ACTIVE"
    by auto
  from yes_vote_of_ten [OF v5 yes(5) ids(5) q4(1,2) ten(2) q4(3,4,5,6)] q4 obtain q5 where
    q5: "find_proposal s5 k = Some q5" "yesVotes q5 = 5" "noVotes q5 = 0" "totalVotes q5 = 5"
      "status q5 = PASSED" "\<not> votingEndsAt q4 < a5"
    by auto
  from q4 q5 show ?thesis by auto
qed

text \<open>The theorem on the votes of \<open>u1\<close> to \<open>u5\<close>, cast in the first seconds of a window of
  24 hours.\<close>

theorem early_exit_witness:
  "find_proposal (demo_store 10 50 60) demo_proposal = Some \<lparr>proposal_id = demo_proposal, communityId = demo_community,
             title = ''Fund the library'',
             description = ''Spend the treasury on a public library'', ptype = ''FUNDING'',
             votingStartsAt = 1000, votingEndsAt = 86401000,
             requiredQuorum = 50, passingThreshold = 60, gasRequired = False,
             status = ACTIVE, yesVotes = 0, noVotes = 0, totalVotes = 0\<rparr>
   \<and> communities (demo_store 10 50 60) demo_community
       = Some \<lparr>memberCount = 10, votingPower = EQUAL\<rparr>
   \<and> (\<exists>q4. find_proposal
              (run (demo_store 10 50 60)
                 [CastVote (demo_vote ''u1'' (JBool True)) 2000 2001,
                  CastVote (demo_vote ''u2'' (JBool True)) 3000 3001,
                  CastVote (demo_vote ''u3'' (JBool True)) 4000 4001,
                  CastVote (demo_vote ''u4'' (JBool True)) 5000 5001]) demo_proposal = Some q4
            \<and> status q4 = ACTIVE \<and> totalVotes q4 = 4)
   \<and> (\<exists>q5. find_proposal
              (run (demo_store 10 50 60)
                 [CastVote (demo_vote ''u1'' (JBool True)) 2000 2001,
                  CastVote (demo_vote ''u2'' (JBool True)) 3000 3001,
                  CastVote (demo_vote ''u3'' (JBool True)) 4000 4001,
                  CastVote (demo_vote ''u4'' (JBool True)) 5000 5001,
                  CastVote (demo_vote ''u5'' (JBool True)) 6000 6001]) demo_proposal = Some q5
            \<and> status q5 = PASSED \<and> yesVotes q5 = 5 \<and> noVotes q5 = 0 \<and> totalVotes q5 = 5)
   \<and> (6000 :: int) \<le> 86401000"
proof -
  let ?p = "\<lparr>proposal_id = demo_proposal, communityId = demo_community,
             title = ''Fund the library'',
             description = ''Spend the treasury on a public library'', ptype = ''FUNDING'',
             votingStartsAt = 1000, votingEndsAt = 86401000,
             requiredQuorum = 50, passingThreshold = 60, gasRequired = False,
             status = ACTIVE, yesVotes = 0, noVotes = 0, totalVotes = 0\<rparr>"
  let ?c = "\<lparr>memberCount = 10, votingPower = EQUAL\<rparr>"
  let ?r1 = "demo_vote ''u1'' (JBool True)"
  let ?r2 = "demo_vote ''u2'' (JBool True)"
  let ?r3 = "demo_vote ''u3'' (JBool True)"
  let ?r4 = "demo_vote ''u4'' (JBool True)"
  let ?r5 = "demo_vote ''u5'' (JBool True)"
  let ?s0 = "demo_store 10 50 60"
  let ?s1 = "snd (castVote ?s0 ?r1 2000 2001)"
  let ?s2 = "snd (castVote ?s1 ?r2 3000 3001)"
  let ?s3 = "snd (castVote ?s2 ?r3 4000 4001)"
  let ?s4 = "snd (castVote ?s3 ?r4 5000 5001)"
  let ?s5 = "snd (castVote ?s4 ?r5 6000 6001)"
  let ?x1 = "\<lparr>cast_vote = True, cast_weight = 1, cast_yesVotes = 1, cast_noVotes = 0,
        cast_totalVotes = 1, cast_participationRate = Fin 5629499534213120 (- 49)\<rparr>"
  let ?x2 = "\<lparr>cast_vote = True, cast_weight = 1, cast_yesVotes = 2, cast_noVotes = 0,
        cast_totalVotes = 2, cast_participationRate = Fin 5629499534213120 (- 48)\<rparr>"
  let ?x3 = "\<lparr>cast_vote = True, cast_weight = 1, cast_yesVotes = 3, cast_noVotes = 0,
        cast_totalVotes = 3, cast_participationRate = Fin 8444249301319680 (- 48)\<rparr>"
  let ?x4 = "\<lparr>cast_vote = True, cast_weight = 1, cast_yesVotes = 4, cast_noVotes = 0,
        cast_totalVotes = 4, cast_participationRate = Fin 5629499534213120 (- 47)\<rparr>"
  let ?x5 = "\<lparr>cast_vote = True, cast_weight = 1, cast_yesVotes = 5, cast_noVotes = 0,
        cast_totalVotes = 5, cast_participationRate = Fin 7036874417766400 (- 47)\<rparr>"
  have p: "find_proposal ?s0 demo_proposal = Some ?p" by code_simp
  have c: "communities ?s0 (communityId ?p) = Some ?c" by code_simp
  have c': "communities ?s0 demo_community = Some ?c" by code_simp
  have yes: "vr_vote ?r1 = JBool True" "vr_vote ?r2 = JBool True" "vr_vote ?r3 = JBool True"
    "vr_vote ?r4 = JBool True" "vr_vote ?r5 = JBool True"
    by (simp_all add: demo_vote_def)
  have ids: "vr_proposalId ?r1 = demo_proposal" "vr_proposalId ?r2 = demo_proposal"
    "vr_proposalId ?r3 = demo_proposal" "vr_proposalId ?r4 = demo_proposal"
    "vr_proposalId ?r5 = demo_proposal"
    by (simp_all add: demo_vote_def)
  have "fst (castVote ?s0 ?r1 2000 2001) = Inr ?x1" by code_simp
  then have v1: "castVote ?s0 ?r1 2000 2001 = (Inr ?x1, ?s1)" by (simp add: prod_eq_iff)
  have "fst (castVote ?s1 ?r2 3000 3001) = Inr ?x2" by code_simp
  then have v2: "castVote ?s1 ?r2 3000 3001 = (Inr ?x2, ?s2)" by (simp add: prod_eq_iff)
  have "fst (castVote ?s2 ?r3 4000 4001) = Inr ?x3" by code_simp
  then have v3: "castVote ?s2 ?r3 4000 4001 = (Inr ?x3, ?s3)" by (simp add: prod_eq_iff)
  have "fst (castVote ?s3 ?r4 5000 5001) = Inr ?x4" by code_simp
  then have v4: "castVote ?s3 ?r4 5000 5001 = (Inr ?x4, ?s4)" by (simp add: prod_eq_iff)
  have "fst (castVote ?s4 ?r5 6000 6001) = Inr ?x5" by code_simp
  then have v5: "castVote ?s4 ?r5 6000 6001 = (Inr ?x5, ?s5)" by (simp add: prod_eq_iff)
  have r4: "run ?s0 [CastVote ?r1 2000 2001, CastVote ?r2 3000 3001, CastVote ?r3 4000 4001,
                     CastVote ?r4 5000 5001] = ?s4"
    by (simp only: run_Cons run_Nil exec.simps)
  have r5: "run ?s0 [CastVote ?r1 2000 2001, CastVote ?r2 3000 3001, CastVote ?r3 4000 4001,
                     CastVote ?r4 5000 5001, CastVote ?r5 6000 6001] = ?s5"
    by (simp only: run_Cons run_Nil exec.simps)
  have e: "votingEndsAt ?p = 86401000" by simp
  from early_exit [OF p _ _ _ _ _ c _ yes ids v1 v2 v3 v4 v5]
  have "(\<exists>q4. find_proposal ?s4 demo_proposal = Some q4 \<and> status q4 = ACTIVE \<and> totalVotes q4 = 4)
       \<and> (\<exists>q5. find_proposal ?s5 demo_proposal = Some q5 \<and> status q5 = PASSED
                \<and> yesVotes q5 = 5 \<and> noVotes q5 = 0 \<and> totalVotes q5 = 5)
       \<and> 6000 \<le> votingEndsAt ?p"
    by simp
  with p c' show ?thesis
    unfolding r4 r5 e by blast
qed

end
